theory Spec2Isabelle
  imports Complex_Main
begin

section \<open>Numeric model\<close>

text \<open>
  The rating engine computes in C/C++ \<open>double\<close>. A \<open>double\<close> is modelled by a \<open>real\<close>:
  finite values are exact, there is no rounding and no overflow. Where the sources
  reach a value that is not a finite number on an ordinary input (the logarithm of a
  non-positive number in \<open>Glicko2::get_new_volatility\<close>), the IEEE outcome is written
  into the model as a branch of its own, because HOL's \<open>ln\<close> is total
  (\<open>ln 0 = 0\<close>, \<open>ln (- x) = ln x\<close>) and would hide it. The same is done for the
  player of the C program without games, whose \<open>v\<close> is infinite. Every other place
  where HOL's total division or logarithm differs from the machine (a zero divisor such
  as a zero deviation, a non-positive volatility, equal function values at both ends of
  the bracket) is outside the model: the theorems below are either about inputs that stay
  clear of it, by a hypothesis or by the values of the input they evaluate, or about
  which entries of the registry are written, which does not depend on the numbers.
  The ids of the game rows are \<open>int64\<close> values that the sources cast to \<open>int\<close>, and the
  cast is modelled (\<open>static_cast_int\<close>); the other \<open>int\<close> values (month numbers, loop
  counters) are modelled by unbounded integers. The functions run in one thread, in the order of
  \<open>player_ids\<close>; the OpenMP schedule of \<open>Glicko::update_player_ratings\<close> is a choice of
  that order.

  A \<open>while\<close> loop whose termination depends on the numbers is a
  \<open>partial_function (option)\<close>: \<open>None\<close> is a loop that never exits.
\<close>

datatype exn = out_of_range

datatype 'a run = Returns 'a | Throws exn | Diverges

section \<open>The game index (\<open>get_player_games\<close>, \<open>get_player_ids\<close>)\<close>

text \<open>
  \<open>Glicko::get_player_games\<close> and \<open>Glicko2::get_player_games\<close> read the games table and
  build \<open>std::map<int, std::vector<std::pair<int, double>>>\<close>. Reading the Parquet file
  is outside the model: the function takes the rows \<open>(player_1, player_2, outcome)\<close> of
  the table, the two ids as the \<open>int64\<close> columns hold them. The \<open>std::map\<close> is an
  association list kept in ascending key order, which is the order in which
  \<open>get_player_ids\<close> iterates over it.
\<close>

type_synonym game_entry = "int \<times> real"
type_synonym player_games = "(int \<times> game_entry list) list"
type_synonym game_row = "int \<times> int \<times> real"

text \<open>\<open>player_games[k].emplace_back(e)\<close>: \<open>operator[]\<close> inserts an empty vector for a new key.\<close>

fun emplace_back :: "int \<Rightarrow> game_entry \<Rightarrow> player_games \<Rightarrow> player_games" where
  "emplace_back k e [] = [(k, [e])]"
| "emplace_back k e ((k', es) # m) =
     (if k = k' then (k', es @ [e]) # m
      else if k < k' then (k, [e]) # (k', es) # m
      else (k', es) # emplace_back k e m)"

text \<open>
  \<open>static_cast<int>\<close> of an \<open>int64\<close> value, as both sources apply it to the id columns:
  the value modulo \<open>2\<^sup>3\<^sup>2\<close> that lies in the range of the 32-bit \<open>int\<close>. An id in that
  range is unchanged, as is a \<open>player_2\<close> that \<open>Glicko2::get_player_games\<close> reads from an
  \<open>int32\<close> column without a cast.
\<close>

definition static_cast_int :: "int \<Rightarrow> int" where
  "static_cast_int x = (x + 2147483648) mod 4294967296 - 2147483648"

fun get_player_games_rows :: "game_row list \<Rightarrow> player_games \<Rightarrow> player_games" where
  "get_player_games_rows [] player_games = player_games"
| "get_player_games_rows ((player_1, player_2, outcome) # rows) player_games =
     (let player1 = static_cast_int player_1;
          player2 = static_cast_int player_2
      in get_player_games_rows rows
           (emplace_back player2 (player1, 1 - outcome)
             (emplace_back player1 (player2, outcome) player_games)))"

definition get_player_games :: "game_row list \<Rightarrow> player_games" where
  "get_player_games rows = get_player_games_rows rows []"

definition get_player_ids :: "player_games \<Rightarrow> int list" where
  "get_player_ids player_games = map fst player_games"

section \<open>The class \<open>Glicko2\<close>\<close>

record Glicko2_Player =
  rating :: real
  deviation :: real
  volatility :: real
  last_month_played :: int

record Glicko2 =
  starting_deviation :: real
  starting_volatility :: real
  tau :: real
  epsilon :: real
  players :: "int \<Rightarrow> Glicko2_Player option"

definition DEFAULT_RATING :: real where
  "DEFAULT_RATING = 1500"

text \<open>The default constructor \<open>Glicko2() = default\<close> with the member initialisers of the header.\<close>

definition Glicko2_default :: Glicko2 where
  "Glicko2_default =
     \<lparr>starting_deviation = 350, starting_volatility = 0.06, tau = 0.6,
      epsilon = 0.000001, players = Map.empty\<rparr>"

text \<open>\<open>players[player_id]\<close>: \<open>std::map::operator[]\<close> value-initialises a missing entry.\<close>

definition Glicko2_players_at :: "Glicko2 \<Rightarrow> int \<Rightarrow> Glicko2_Player" where
  "Glicko2_players_at self player_id =
     (case players self player_id of
        None \<Rightarrow> \<lparr>rating = 0, deviation = 0, volatility = 0, last_month_played = 0\<rparr>
      | Some player \<Rightarrow> player)"

fun Glicko2_update_player_ratings_and_deviations :: "Glicko2 \<Rightarrow> int list \<Rightarrow> int \<Rightarrow> Glicko2" where
  "Glicko2_update_player_ratings_and_deviations self [] month = self"
| "Glicko2_update_player_ratings_and_deviations self (player_id # player_ids) month =
     (let player = Glicko2_players_at self player_id;
          player = player\<lparr>rating := (rating player - 1500) / 173.7178\<rparr>;
          player = player\<lparr>deviation :=
            sqrt ((deviation player / 173.7178)\<^sup>2
                  + real_of_int (month - last_month_played player - 1)
                    * volatility player * volatility player)\<rparr>;
          player = player\<lparr>last_month_played := month\<rparr>
      in Glicko2_update_player_ratings_and_deviations
           (self\<lparr>players := (players self)(player_id \<mapsto> player)\<rparr>) player_ids month)"

definition Glicko2_f :: "Glicko2 \<Rightarrow> real \<Rightarrow> real \<Rightarrow> real \<Rightarrow> real \<Rightarrow> real \<Rightarrow> real" where
  "Glicko2_f self x a dev v delta =
     exp x * (delta * delta - dev * dev - v - exp x)
       / (2 * (dev * dev + v + exp x)\<^sup>2)
     - (x - a) / (tau self * tau self)"

text \<open>The search \<open>while (f(A - k * tau, A, deviation, v, delta) < 0.0) ++k;\<close>\<close>

partial_function (option) Glicko2_search_k ::
    "Glicko2 \<Rightarrow> real \<Rightarrow> real \<Rightarrow> real \<Rightarrow> real \<Rightarrow> int \<Rightarrow> int option" where
  "Glicko2_search_k self A dev v delta k =
     (if Glicko2_f self (A - real_of_int k * tau self) A dev v delta < 0
      then Glicko2_search_k self A dev v delta (k + 1)
      else Some k)"

text \<open>
  The body of \<open>while (std::abs(B - A) > epsilon)\<close> on the loop variables
  \<open>(A, B, f_A, f_B)\<close>. The second argument of \<open>f\<close> is the loop variable \<open>A\<close>.
  The parameters \<open>deviation\<close> and \<open>volatility\<close> of the source are written \<open>dev\<close> and
  \<open>vol\<close>, the field names being taken by the record \<open>Glicko2_Player\<close>.
\<close>

definition Glicko2_solver_step ::
    "Glicko2 \<Rightarrow> real \<Rightarrow> real \<Rightarrow> real \<Rightarrow> real \<times> real \<times> real \<times> real \<Rightarrow> real \<times> real \<times> real \<times> real" where
  "Glicko2_solver_step self dev v delta s =
     (case s of (A, B, f_A, f_B) \<Rightarrow>
        (let C = A + (A - B) * f_A / (f_B - f_A);
             f_C = Glicko2_f self C A dev v delta
         in if f_C < 0 then (A, C, f_A, f_C) else (C, B, f_C, f_B)))"

partial_function (option) Glicko2_solver_loop ::
    "Glicko2 \<Rightarrow> real \<Rightarrow> real \<Rightarrow> real \<Rightarrow> real \<times> real \<times> real \<times> real \<Rightarrow> real option" where
  "Glicko2_solver_loop self dev v delta s =
     (if \<bar>fst (snd s) - fst s\<bar> > epsilon self
      then Glicko2_solver_loop self dev v delta (Glicko2_solver_step self dev v delta s)
      else Some (fst s))"

text \<open>
  \<open>Glicko2::get_new_volatility\<close>. \<open>B = std::log(delta * delta - deviation * deviation - v)\<close>
  has three IEEE outcomes. For a negative argument \<open>B\<close> is NaN: \<open>B <= 0.0\<close> is false, and
  \<open>std::abs(B - A) > epsilon\<close> is false, so neither loop runs and \<open>std::exp(A/2)\<close> is
  returned. For the argument zero \<open>B\<close> is minus infinity and \<open>B <= 0.0\<close> holds. For a
  positive argument \<open>B\<close> is the logarithm. The volatility is taken to be positive, so
  that \<open>A\<close> is finite.
\<close>

definition Glicko2_get_new_volatility :: "Glicko2 \<Rightarrow> real \<Rightarrow> real \<Rightarrow> real \<Rightarrow> real \<Rightarrow> real option" where
  "Glicko2_get_new_volatility self dev vol v delta =
     (let A = 2 * ln vol;
          arg = delta * delta - dev * dev - v
      in if arg < 0 then Some (exp (A / 2))
         else
           (case (if arg = 0 \<or> ln arg \<le> 0
                  then (case Glicko2_search_k self A dev v delta 1 of
                          None \<Rightarrow> None
                        | Some k \<Rightarrow> Some (A - real_of_int k * tau self))
                  else Some (ln arg)) of
              None \<Rightarrow> None
            | Some B \<Rightarrow>
                (let f_A = Glicko2_f self A A dev v delta;
                     f_B = Glicko2_f self B A dev v delta
                 in (case Glicko2_solver_loop self dev v delta (A, B, f_A, f_B) of
                       None \<Rightarrow> None
                     | Some A' \<Rightarrow> Some (exp (A' / 2))))))"

definition Glicko2_binary_cross_entropy :: "real \<Rightarrow> real \<Rightarrow> real" where
  "Glicko2_binary_cross_entropy expected_score outcome =
     - outcome * ln expected_score - (1 - outcome) * ln (1 - expected_score)"

text \<open>
  Lines 289 to 291 of \<open>Glicko2::update_player_ratings\<close>: the opponent is looked up, and
  the iterator is not used afterwards.
\<close>

definition Glicko2_opponent :: "Glicko2 \<Rightarrow> int \<Rightarrow> real \<times> real" where
  "Glicko2_opponent self opponent_id =
     (let opponent_it = players self opponent_id;
          opponent_rating = DEFAULT_RATING;
          opponent_deviation = starting_deviation self
      in (opponent_rating, opponent_deviation))"

text \<open>The inner loop over \<open>player_games.at(player_id)\<close>, on \<open>(v_sum, g_sum, loss)\<close>.\<close>

fun Glicko2_games_loop ::
    "Glicko2 \<Rightarrow> Glicko2_Player \<Rightarrow> game_entry list \<Rightarrow> real \<times> real \<times> real \<Rightarrow> real \<times> real \<times> real" where
  "Glicko2_games_loop self player [] acc = acc"
| "Glicko2_games_loop self player ((opponent_id, outcome) # games) acc =
     (case acc of (v_sum, g_sum, loss) \<Rightarrow>
       (case Glicko2_opponent self opponent_id of (opponent_rating, opponent_deviation) \<Rightarrow>
         (let g = 1 / sqrt (1 + 3 * (opponent_deviation / 173.7178 / pi)\<^sup>2);
              expected_score =
                1 / (1 + exp (- g * (rating player - opponent_rating) * 173.7178 / 400))
          in Glicko2_games_loop self player games
               (v_sum + g\<^sup>2 * expected_score * (1 - expected_score),
                g_sum + g * (outcome - expected_score),
                loss + Glicko2_binary_cross_entropy expected_score outcome))))"

text \<open>One iteration of the loop over \<open>player_ids\<close>; \<open>loss\<close> is the running total.\<close>

definition Glicko2_update_player ::
    "Glicko2 \<Rightarrow> player_games \<Rightarrow> int \<Rightarrow> real \<Rightarrow> (real \<times> Glicko2) run" where
  "Glicko2_update_player self player_games player_id loss =
     (let player = Glicko2_players_at self player_id;
          self = self\<lparr>players := (players self)(player_id \<mapsto> player)\<rparr>
      in case map_of player_games player_id of
           None \<Rightarrow> Throws out_of_range
         | Some games \<Rightarrow>
             (case Glicko2_games_loop self player games (0, 0, loss) of (v_sum, g_sum, loss) \<Rightarrow>
               (let v = 1 / v_sum;
                    delta = v * g_sum
                in case Glicko2_get_new_volatility self (deviation player) (volatility player) v delta of
                     None \<Rightarrow> Diverges
                   | Some new_volatility \<Rightarrow>
                       (let new_deviation =
                              1 / sqrt (1 / (deviation player)\<^sup>2 + 1 / new_volatility\<^sup>2);
                            player = player\<lparr>volatility := new_volatility\<rparr>;
                            player = player\<lparr>deviation :=
                              1 / sqrt (1 / (new_deviation * new_deviation + 1 / v))\<rparr>;
                            player = player\<lparr>rating :=
                              rating player + new_deviation * new_deviation * g_sum\<rparr>
                        in Returns (loss, self\<lparr>players := (players self)(player_id \<mapsto> player)\<rparr>)))))"

fun Glicko2_players_loop ::
    "Glicko2 \<Rightarrow> player_games \<Rightarrow> int list \<Rightarrow> real \<Rightarrow> (real \<times> Glicko2) run" where
  "Glicko2_players_loop self player_games [] loss = Returns (loss, self)"
| "Glicko2_players_loop self player_games (player_id # player_ids) loss =
     (case Glicko2_update_player self player_games player_id loss of
        Returns (loss', self') \<Rightarrow> Glicko2_players_loop self' player_games player_ids loss'
      | Throws e \<Rightarrow> Throws e
      | Diverges \<Rightarrow> Diverges)"

text \<open>
  \<open>Glicko2::update_player_ratings\<close>. For an empty \<open>player_ids\<close> the source divides
  \<open>0.0\<close> by zero and returns NaN; no theorem below is about that case.
\<close>

definition Glicko2_update_player_ratings ::
    "Glicko2 \<Rightarrow> player_games \<Rightarrow> int list \<Rightarrow> int \<Rightarrow> int \<Rightarrow> (real \<times> Glicko2) run" where
  "Glicko2_update_player_ratings self player_games player_ids month num_threads =
     (case Glicko2_players_loop self player_games player_ids 0 of
        Returns (loss, self') \<Rightarrow> Returns (loss / (2 * real (length player_ids)), self')
      | Throws e \<Rightarrow> Throws e
      | Diverges \<Rightarrow> Diverges)"

definition Glicko2_update_ratings ::
    "Glicko2 \<Rightarrow> game_row list \<Rightarrow> int \<Rightarrow> int \<Rightarrow> bool \<Rightarrow> (real \<times> Glicko2) run" where
  "Glicko2_update_ratings self games_file month num_threads output_ratings =
     (let player_games = get_player_games games_file;
          player_ids = get_player_ids player_games;
          self = Glicko2_update_player_ratings_and_deviations self player_ids month
      in Glicko2_update_player_ratings self player_games player_ids month num_threads)"

section \<open>The class \<open>Glicko\<close>\<close>

text \<open>
  The sibling class without volatility. Its members carry the prefix \<open>Glicko_\<close>, the
  plain names being those of \<open>Glicko2\<close>.
\<close>

record Glicko_Player =
  Glicko_rating :: real
  Glicko_deviation :: real
  Glicko_last_month_played :: int

record Glicko =
  Glicko_starting_deviation :: real
  Glicko_c :: real
  Glicko_players :: "int \<Rightarrow> Glicko_Player option"

definition Q :: real where
  "Q = ln 10 / 400"

definition Glicko_players_at :: "Glicko \<Rightarrow> int \<Rightarrow> Glicko_Player" where
  "Glicko_players_at self player_id =
     (case Glicko_players self player_id of
        None \<Rightarrow> \<lparr>Glicko_rating = 0, Glicko_deviation = 0, Glicko_last_month_played = 0\<rparr>
      | Some player \<Rightarrow> player)"

fun Glicko_update_player_deviations :: "Glicko \<Rightarrow> int list \<Rightarrow> int \<Rightarrow> Glicko" where
  "Glicko_update_player_deviations self [] month = self"
| "Glicko_update_player_deviations self (player_id # player_ids) month =
     (let player = Glicko_players_at self player_id;
          player = player\<lparr>Glicko_deviation :=
            sqrt (Glicko_deviation player * Glicko_deviation player + Glicko_c self * Glicko_c self)\<rparr>;
          player = player\<lparr>Glicko_last_month_played := month\<rparr>
      in Glicko_update_player_deviations
           (self\<lparr>Glicko_players := (Glicko_players self)(player_id \<mapsto> player)\<rparr>) player_ids month)"

definition Glicko_binary_cross_entropy :: "real \<Rightarrow> real \<Rightarrow> real" where
  "Glicko_binary_cross_entropy pred actual =
     (let pred = max (min pred (1 - 1 / 10 ^ 15)) (1 / 10 ^ 15)
      in - (actual * ln pred + (1 - actual) * ln (1 - pred)))"

text \<open>Lines 286 to 293 of \<open>Glicko::update_player_ratings\<close>: the opponent's strength.\<close>

definition Glicko_opponent :: "Glicko \<Rightarrow> int \<Rightarrow> real \<times> real" where
  "Glicko_opponent self opponent_id =
     (let opponent_it = Glicko_players self opponent_id;
          opponent_rating = DEFAULT_RATING;
          opponent_deviation = Glicko_starting_deviation self
      in case opponent_it of
           Some second \<Rightarrow> (Glicko_rating second, Glicko_deviation second)
         | None \<Rightarrow> (opponent_rating, opponent_deviation))"

text \<open>
  The inner loop over \<open>games\<close>, on \<open>(d, sum)\<close> (written \<open>sum0\<close>). \<open>player\<close> is a reference to the entry
  of the map \<open>players\<close>, and \<open>self\<close> is the object as it is when the loop runs.
\<close>

fun Glicko_games_loop ::
    "Glicko \<Rightarrow> Glicko_Player \<Rightarrow> game_entry list \<Rightarrow> real \<times> real \<Rightarrow> real \<times> real" where
  "Glicko_games_loop self player [] acc = acc"
| "Glicko_games_loop self player ((opponent_id, outcome) # games) acc =
     (case acc of (d, sum0) \<Rightarrow>
       (case Glicko_opponent self opponent_id of (opponent_rating, opponent_deviation) \<Rightarrow>
         (let g = 1 / sqrt (1 + 3 * Q\<^sup>2 * opponent_deviation\<^sup>2 / (pi * pi));
              E = 1 / (1 + exp (- g * (Glicko_rating player - opponent_rating) / 400))
          in Glicko_games_loop self player games
               (d + g\<^sup>2 * E * (1 - E), sum0 + g * (outcome - E)))))"

text \<open>
  One iteration of the loop over \<open>i\<close>. The writes through the reference \<open>player\<close> go to
  the map \<open>players\<close> at once; \<open>updated_players[i]\<close> receives a copy.
\<close>

definition Glicko_update_player ::
    "Glicko \<Rightarrow> player_games \<Rightarrow> int \<Rightarrow> (Glicko \<times> (int \<times> Glicko_Player)) run" where
  "Glicko_update_player self player_games player_id =
     (case map_of player_games player_id of
        None \<Rightarrow> Throws out_of_range
      | Some games \<Rightarrow>
          (let player = Glicko_players_at self player_id;
               self = self\<lparr>Glicko_players := (Glicko_players self)(player_id \<mapsto> player)\<rparr>
           in case Glicko_games_loop self player games (0, 0) of (d, sum0) \<Rightarrow>
             (let d = 1 / d\<^sup>2;
                  player = player\<lparr>Glicko_rating :=
                    Glicko_rating player + Q / (1 / (Glicko_deviation player)\<^sup>2 + d) * sum0\<rparr>;
                  player = player\<lparr>Glicko_deviation :=
                    sqrt (1 / (Glicko_deviation player)\<^sup>2 + d)\<rparr>
              in Returns (self\<lparr>Glicko_players := (Glicko_players self)(player_id \<mapsto> player)\<rparr>,
                          (player_id, player)))))"

fun Glicko_players_loop ::
    "Glicko \<Rightarrow> player_games \<Rightarrow> int list \<Rightarrow> (int \<times> Glicko_Player) list
       \<Rightarrow> (Glicko \<times> (int \<times> Glicko_Player) list) run" where
  "Glicko_players_loop self player_games [] updated_players = Returns (self, updated_players)"
| "Glicko_players_loop self player_games (player_id # player_ids) updated_players =
     (case Glicko_update_player self player_games player_id of
        Returns (self', updated) \<Rightarrow>
          Glicko_players_loop self' player_games player_ids (updated_players @ [updated])
      | Throws e \<Rightarrow> Throws e
      | Diverges \<Rightarrow> Diverges)"

text \<open>The last loop: \<open>players[updated_players[i].first] = updated_players[i].second\<close>.\<close>

fun Glicko_set_new_ratings :: "Glicko \<Rightarrow> (int \<times> Glicko_Player) list \<Rightarrow> Glicko" where
  "Glicko_set_new_ratings self [] = self"
| "Glicko_set_new_ratings self ((first, second) # updated_players) =
     Glicko_set_new_ratings
       (self\<lparr>Glicko_players := (Glicko_players self)(first \<mapsto> second)\<rparr>) updated_players"

text \<open>
  \<open>Glicko::update_player_ratings\<close>, run by one thread in the order of \<open>player_ids\<close>.
  \<open>total_loss\<close> is initialised and never assigned again.
\<close>

definition Glicko_update_player_ratings ::
    "Glicko \<Rightarrow> player_games \<Rightarrow> int list \<Rightarrow> int \<Rightarrow> int \<Rightarrow> (real \<times> Glicko) run" where
  "Glicko_update_player_ratings self player_games player_ids month num_threads =
     (let total_loss = 0
      in case Glicko_players_loop self player_games player_ids [] of
           Returns (self', updated_players) \<Rightarrow>
             (let average_loss = total_loss / (2 * real (length player_ids))
              in Returns (average_loss, Glicko_set_new_ratings self' updated_players))
         | Throws e \<Rightarrow> Throws e
         | Diverges \<Rightarrow> Diverges)"

definition Glicko_update_ratings ::
    "Glicko \<Rightarrow> game_row list \<Rightarrow> int \<Rightarrow> int \<Rightarrow> bool \<Rightarrow> (real \<times> Glicko) run" where
  "Glicko_update_ratings self games_file month num_threads output_ratings =
     (let player_games = get_player_games games_file;
          player_ids = get_player_ids player_games;
          self = Glicko_update_player_deviations self player_ids month
      in Glicko_update_player_ratings self player_games player_ids month num_threads)"

section \<open>The C program (\<open>glicko2_update\<close>)\<close>

text \<open>
  The fields of \<open>struct Player\<close> and \<open>GameResult\<close> carry the struct's name as a prefix.
  The chained hash table is the list of its players in the order of the buckets and,
  within a bucket, of the chain; \<open>retrieve\<close> returns the first player of the chain with
  the id, which is the first one of the list. \<open>games\<close> with \<open>games_count\<close> is a list.
\<close>

record GameResult =
  GameResult_opponent_id :: int
  GameResult_score :: real

record Player =
  Player_id :: int
  Player_rating :: real
  Player_rd :: real
  Player_volatility :: real
  Player_new_rating :: real
  Player_new_rd :: real
  Player_games :: "GameResult list"

definition TAU :: real where
  "TAU = 0.2"

definition retrieve :: "Player list \<Rightarrow> int \<Rightarrow> Player option" where
  "retrieve hash_table ident = find (\<lambda>current. Player_id current = ident) hash_table"

definition f :: "real \<Rightarrow> real \<Rightarrow> real \<Rightarrow> real \<Rightarrow> real" where
  "f x delta v A =
     (let ex = exp x
      in (ex * (delta * delta - v - ex)) / (2 * (v + ex)\<^sup>2) - (x - A) / TAU\<^sup>2)"

definition g :: "real \<Rightarrow> real" where
  "g RD = 1 / sqrt (1 + (3 * RD\<^sup>2) / pi\<^sup>2)"

definition E :: "real \<Rightarrow> real \<Rightarrow> real \<Rightarrow> real" where
  "E mu mu_j RD_j = 1 / (1 + exp (- g RD_j * (mu - mu_j)))"

text \<open>The loop over \<open>games\<close> in \<open>glicko2_update\<close>, on \<open>(v_inv, delta_sum)\<close>.\<close>

fun glicko2_games_loop ::
    "Player list \<Rightarrow> real \<Rightarrow> GameResult list \<Rightarrow> real \<times> real \<Rightarrow> real \<times> real" where
  "glicko2_games_loop hash_table mu [] acc = acc"
| "glicko2_games_loop hash_table mu (game # games) acc =
     (case acc of (v_inv, delta_sum) \<Rightarrow>
       (case retrieve hash_table (GameResult_opponent_id game) of
          None \<Rightarrow> glicko2_games_loop hash_table mu games (v_inv, delta_sum)
        | Some opponent \<Rightarrow>
            (let mu_j = (Player_rating opponent - 1500) / 173.7178;
                 phi_j = Player_rd opponent / 173.7178;
                 score = GameResult_score game
             in glicko2_games_loop hash_table mu games
                  (v_inv + (g phi_j)\<^sup>2 * E mu mu_j phi_j * (1 - E mu mu_j phi_j),
                   delta_sum + g phi_j * (score - E mu mu_j phi_j)))))"

text \<open>The search \<open>while (f(a - k * TAU, delta, v, A) < 0) k++;\<close>\<close>

partial_function (option) glicko2_search_k ::
    "real \<Rightarrow> real \<Rightarrow> real \<Rightarrow> real \<Rightarrow> int \<Rightarrow> int option" where
  "glicko2_search_k a delta v A k =
     (if f (a - real_of_int k * TAU) delta v A < 0
      then glicko2_search_k a delta v A (k + 1)
      else Some k)"

text \<open>Lines 134 to 146 of \<open>glicko2_update\<close>: the bracket \<open>(A, B)\<close> the solver starts from.\<close>

definition glicko2_bracket :: "real \<Rightarrow> real \<Rightarrow> real \<Rightarrow> real \<Rightarrow> (real \<times> real) option" where
  "glicko2_bracket vol phi v delta =
     (let a = ln (vol\<^sup>2);
          A = a
      in if delta\<^sup>2 > phi\<^sup>2 + v then Some (A, ln (delta\<^sup>2 - phi\<^sup>2 - v))
         else (case glicko2_search_k a delta v A 1 of
                 None \<Rightarrow> None
               | Some k \<Rightarrow> Some (A, a - real_of_int k * TAU)))"

text \<open>The body of \<open>while (fabs(B - A) > epsilon)\<close> on \<open>(A, B, fa, fb)\<close>.\<close>

definition glicko2_solver_step ::
    "real \<Rightarrow> real \<Rightarrow> real \<times> real \<times> real \<times> real \<Rightarrow> real \<times> real \<times> real \<times> real" where
  "glicko2_solver_step delta v s =
     (case s of (A, B, fa, fb) \<Rightarrow>
        (let C = A + (A - B) * fa / (fb - fa);
             fc = f C delta v A
         in if fc * fb < 0 then (B, C, fb, fc) else (A, C, fa / 2, fc)))"

partial_function (option) glicko2_solver_loop ::
    "real \<Rightarrow> real \<Rightarrow> real \<times> real \<times> real \<times> real \<Rightarrow> real option" where
  "glicko2_solver_loop delta v s =
     (if \<bar>fst (snd s) - fst s\<bar> > 0.000001
      then glicko2_solver_loop delta v (glicko2_solver_step delta v s)
      else Some (fst s))"

text \<open>
  Lines 166 to 219 of \<open>glicko2_update\<close>, from the solver's final \<open>A\<close> on. \<open>log_ok\<close> says
  whether \<open>fopen("extreme_cases.log", "a")\<close> succeeds. The result is the player after
  the call and the records appended to the log, each with the player's id and the
  values \<open>new_phi\<close> (when it is known) and \<open>new_volatility\<close> it prints.
\<close>

datatype log_record = Extreme_volatility int real | Extreme_phi int real real

definition glicko2_commit ::
    "bool \<Rightarrow> Player \<Rightarrow> real \<Rightarrow> real \<Rightarrow> real \<Rightarrow> real \<Rightarrow> real \<Rightarrow> Player \<times> log_record list" where
  "glicko2_commit log_ok target mu phi v delta_sum A =
     (let new_volatility = exp (A / 2)
      in if new_volatility > 1 \<and> \<not> log_ok then (target, [])
         else
          (let log1 = (if new_volatility > 1
                       then [Extreme_volatility (Player_id target) new_volatility] else []);
               new_volatility = (if new_volatility > 2.8 then 2.8 else new_volatility);
               phi_star = sqrt (phi\<^sup>2 + new_volatility\<^sup>2);
               new_phi = 1 / sqrt (1 / phi_star\<^sup>2 + 1 / v)
           in if (new_phi < 0.1 \<or> new_phi > 2.8) \<and> \<not> log_ok then (target, log1)
              else
               (let log2 = (if new_phi < 0.1 \<or> new_phi > 2.8
                            then [Extreme_phi (Player_id target) new_phi new_volatility] else []);
                    new_phi = (if new_phi > 2.9 then 2.9 else new_phi);
                    new_mu = mu + new_phi\<^sup>2 * delta_sum
                in (target\<lparr>Player_new_rating := new_mu * 173.7178 + 1500,
                            Player_new_rd := new_phi * 173.7178,
                            Player_volatility := new_volatility\<rparr>,
                    log1 @ log2))))"

text \<open>
  \<open>glicko2_update\<close>. The parameters \<open>players\<close> and \<open>player_count\<close> are not used by the
  source; the global \<open>hash_table\<close> is a parameter. When no game has an opponent in the
  table, \<open>v_inv\<close> is zero and IEEE arithmetic gives \<open>v = inf\<close> and \<open>delta = NaN\<close>: every
  comparison with \<open>delta\<close> or with a value of \<open>f\<close> is false, the search stops at
  \<open>k = 1\<close>, the solver's loop runs once, sets \<open>B\<close> to NaN and exits with \<open>A = a\<close>, and
  \<open>1.0 / v\<close> is zero, as \<open>1 / v\<close> is in HOL for \<open>v = 1 / 0 = 0\<close>.
\<close>

definition glicko2_update ::
    "bool \<Rightarrow> Player list \<Rightarrow> Player \<Rightarrow> GameResult list \<Rightarrow> (Player \<times> log_record list) option" where
  "glicko2_update log_ok hash_table target games =
     (let mu = (Player_rating target - 1500) / 173.7178;
          phi = Player_rd target / 173.7178
      in case glicko2_games_loop hash_table mu games (0, 0) of (v_inv, delta_sum) \<Rightarrow>
        (let v = 1 / v_inv;
             delta = v * delta_sum;
             a = ln ((Player_volatility target)\<^sup>2)
         in if v_inv = 0 then Some (glicko2_commit log_ok target mu phi v delta_sum a)
            else
             (case glicko2_bracket (Player_volatility target) phi v delta of
                None \<Rightarrow> None
              | Some (A, B) \<Rightarrow>
                  (let fa = f A delta v A;
                       fb = f B delta v A
                   in case glicko2_solver_loop delta v (A, B, fa, fb) of
                        None \<Rightarrow> None
                      | Some A' \<Rightarrow>
                          Some (glicko2_commit log_ok target mu phi v delta_sum A')))))"

text \<open>
  The loop of \<open>main\<close> that calls \<open>glicko2_update\<close> for every player of the table
  (lines 340 to 348), and \<open>apply_new_ratings\<close>. \<open>main\<close> visits the players in the order
  of the table; here the order of the visits is the list \<open>order\<close> of their positions,
  all of them positions of the table. The player is updated in place.
\<close>

fun update_players :: "bool \<Rightarrow> nat list \<Rightarrow> Player list \<Rightarrow> Player list option" where
  "update_players log_ok [] hash_table = Some hash_table"
| "update_players log_ok (i # order) hash_table =
     (case glicko2_update log_ok hash_table (hash_table ! i) (Player_games (hash_table ! i)) of
        None \<Rightarrow> None
      | Some (current, records) \<Rightarrow> update_players log_ok order (hash_table[i := current]))"

definition apply_new_ratings :: "Player list \<Rightarrow> Player list" where
  "apply_new_ratings hash_table =
     map (\<lambda>current. current\<lparr>Player_rating := Player_new_rating current,
                              Player_rd := Player_new_rd current\<rparr>) hash_table"

text \<open>What \<open>glicko2_update\<close> reads of the other players: id, rating and deviation.\<close>

definition same_strength :: "Player \<Rightarrow> Player \<Rightarrow> bool" where
  "same_strength p q \<longleftrightarrow>
     Player_id p = Player_id q \<and> Player_rating p = Player_rating q \<and> Player_rd p = Player_rd q"

section \<open>The objective function and the Illinois step of the specification\<close>

text \<open>
  The formula of section 4.3 of the specification, written after its words,
  \<open>f(x) = exp(x) (delta\<^sup>2 - phi\<^sup>2 - v - exp(x)) / (2 (phi\<^sup>2 + v + exp(x))\<^sup>2) - (x - a) / tau\<^sup>2\<close>
  with \<open>a = ln(sigma\<^sup>2)\<close>, to compare the two functions \<open>f\<close> of the sources with.
\<close>

definition spec_objective :: "real \<Rightarrow> real \<Rightarrow> real \<Rightarrow> real \<Rightarrow> real \<Rightarrow> real \<Rightarrow> real" where
  "spec_objective tau0 sigma phi v delta x =
     exp x * (delta\<^sup>2 - phi\<^sup>2 - v - exp x) / (2 * (phi\<^sup>2 + v + exp x)\<^sup>2)
     - (x - ln (sigma\<^sup>2)) / tau0\<^sup>2"

text \<open>
  The Illinois step of section 4.3, steps 2 and 3, as the loop body of \<open>glicko2_update\<close>
  performs it (lines 153 to 163), with \<open>Glicko2::f\<close> as the objective function, to
  compare the loop body of \<open>Glicko2::get_new_volatility\<close> with.
\<close>

definition Glicko2_illinois_step ::
    "Glicko2 \<Rightarrow> real \<Rightarrow> real \<Rightarrow> real \<Rightarrow> real \<times> real \<times> real \<times> real \<Rightarrow> real \<times> real \<times> real \<times> real" where
  "Glicko2_illinois_step self dev v delta s =
     (case s of (A, B, f_A, f_B) \<Rightarrow>
        (let C = A + (A - B) * f_A / (f_B - f_A);
             f_C = Glicko2_f self C A dev v delta
         in if f_C * f_B < 0 then (B, C, f_B, f_C) else (A, C, f_A / 2, f_C)))"

section \<open>Results of a run, and a registry to run on\<close>

definition returned_loss :: "(real \<times> 'a) run \<Rightarrow> real option" where
  "returned_loss r =
     (case r of Returns (loss, self) \<Rightarrow> Some loss | Throws e \<Rightarrow> None | Diverges \<Rightarrow> None)"

definition Glicko2_player_after :: "(real \<times> Glicko2) run \<Rightarrow> int \<Rightarrow> Glicko2_Player option" where
  "Glicko2_player_after r player_id =
     (case r of Returns (loss, self) \<Rightarrow> players self player_id
      | Throws e \<Rightarrow> None | Diverges \<Rightarrow> None)"

text \<open>
  \<open>Glicko2::update_player_ratings\<close> compares the player's rating, which
  \<open>update_player_ratings_and_deviations\<close> has put on the internal scale, with the
  opponent's \<open>DEFAULT_RATING\<close> of 1500. The display rating 262076.7 is the one whose
  internal value is exactly 1500, so that the expected score of players 1 to 3 below is
  one half; player 4 plays no game.
\<close>

definition tie_registry :: Glicko2 where
  "tie_registry = Glicko2_default\<lparr>players :=
     [1 \<mapsto> \<lparr>rating = 262076.7, deviation = 173.7178, volatility = 0.06, last_month_played = 4\<rparr>,
      2 \<mapsto> \<lparr>rating = 262076.7, deviation = 173.7178, volatility = 0.06, last_month_played = 4\<rparr>,
      3 \<mapsto> \<lparr>rating = 262076.7, deviation = 173.7178, volatility = 0.06, last_month_played = 4\<rparr>,
      4 \<mapsto> \<lparr>rating = 1500, deviation = 200, volatility = 0.06, last_month_played = 0\<rparr>]\<rparr>"

definition tie_games :: "game_row list" where
  "tie_games = [(1, 2, 1 / 2), (1, 3, 1 / 2)]"

definition Glicko_player_after :: "(real \<times> Glicko) run \<Rightarrow> int \<Rightarrow> Glicko_Player option" where
  "Glicko_player_after r player_id =
     (case r of Returns (loss, self) \<Rightarrow> Glicko_players self player_id
      | Throws e \<Rightarrow> None | Diverges \<Rightarrow> None)"

text \<open>Two equally rated players of the class \<open>Glicko\<close> and the index of their one drawn game.\<close>

definition Glicko_pair :: Glicko where
  "Glicko_pair = \<lparr>Glicko_starting_deviation = 350, Glicko_c = 50, Glicko_players =
     [1 \<mapsto> \<lparr>Glicko_rating = 1500, Glicko_deviation = 350, Glicko_last_month_played = 4\<rparr>,
      2 \<mapsto> \<lparr>Glicko_rating = 1500, Glicko_deviation = 350, Glicko_last_month_played = 4\<rparr>]\<rparr>"

definition pair_index :: player_games where
  "pair_index = get_player_games [(1, 2, 1 / 2)]"

text \<open>A player of the C program with a volatility above 1 and no games.\<close>

definition volatile_player :: Player where
  "volatile_player =
     \<lparr>Player_id = 7, Player_rating = 1500, Player_rd = 350, Player_volatility = 2,
      Player_new_rating = 0, Player_new_rd = 0, Player_games = []\<rparr>"

section \<open>The game index has no empty list\<close>

lemma static_cast_int_in_range:
  "- 2147483648 \<le> x \<Longrightarrow> x < 2147483648 \<Longrightarrow> static_cast_int x = x"
  by (simp add: static_cast_int_def)

lemma emplace_back_nonempty:
  "\<forall>(k, es) \<in> set m. es \<noteq> [] \<Longrightarrow> \<forall>(k, es) \<in> set (emplace_back k0 e m). es \<noteq> []"
  by (induction k0 e m rule: emplace_back.induct) auto

lemma get_player_games_rows_nonempty:
  "\<forall>(k, es) \<in> set m. es \<noteq> [] \<Longrightarrow> \<forall>(k, es) \<in> set (get_player_games_rows rows m). es \<noteq> []"
proof (induction rows m rule: get_player_games_rows.induct)
  case (1 player_games)
  then show ?case by simp
next
  case (2 player_1 player_2 outcome rows player_games)
  show ?case
    unfolding get_player_games_rows.simps Let_def
    by (rule "2.IH" [OF refl refl]) (intro emplace_back_nonempty "2.prems")
qed

lemma get_player_games_nonempty:
  "map_of (get_player_games rows) player_id = Some games \<Longrightarrow> games \<noteq> []"
  using get_player_games_rows_nonempty [of "[]" rows]
  by (auto simp: get_player_games_def dest!: map_of_SomeD)

section \<open>The variance sum of \<open>Glicko2::update_player_ratings\<close>\<close>

lemma logistic_bounds: "0 < 1 / (1 + exp (y::real)) \<and> 1 / (1 + exp y) < 1"
proof -
  have "0 < exp y" by simp
  then show ?thesis by (simp add: field_simps add_pos_pos)
qed

lemma impact_pos: "0 < 1 / sqrt (1 + 3 * (x::real)\<^sup>2)"
proof -
  have "0 \<le> x\<^sup>2" by simp
  then have "0 < 1 + 3 * x\<^sup>2" by linarith
  then show ?thesis by simp
qed

lemma variance_term_pos:
  "0 < (1 / sqrt (1 + 3 * (x::real)\<^sup>2))\<^sup>2 * (1 / (1 + exp y)) * (1 - 1 / (1 + exp y))"
proof -
  have i: "0 < (1 / sqrt (1 + 3 * x\<^sup>2))\<^sup>2" using impact_pos [of x] by simp
  have l: "0 < 1 / (1 + exp y)" "0 < 1 - 1 / (1 + exp y)" using logistic_bounds [of y] by simp_all
  show ?thesis using i l by (intro mult_pos_pos)
qed

text \<open>One game entry adds a positive term to \<open>v_sum\<close>.\<close>

lemma Glicko2_games_loop_v_sum:
  "v_sum \<le> fst (Glicko2_games_loop self player games (v_sum, g_sum, loss)) \<and>
   (games \<noteq> [] \<longrightarrow> v_sum < fst (Glicko2_games_loop self player games (v_sum, g_sum, loss)))"
proof (induction games arbitrary: v_sum g_sum loss)
  case Nil
  then show ?case by simp
next
  case (Cons entry games)
  obtain opponent_id outcome where entry: "entry = (opponent_id, outcome)" by (cases entry)
  define gg where "gg = 1 / sqrt (1 + 3 * (starting_deviation self / 173.7178 / pi)\<^sup>2)"
  define y where "y = - gg * (rating player - DEFAULT_RATING) * 173.7178 / 400"
  define t where "t = gg\<^sup>2 * (1 / (1 + exp y)) * (1 - 1 / (1 + exp y))"
  have t: "0 < t" unfolding t_def gg_def by (rule variance_term_pos)
  have step: "fst (Glicko2_games_loop self player (entry # games) (v_sum, g_sum, loss)) =
      fst (Glicko2_games_loop self player games (v_sum + t,
         g_sum + gg * (outcome - 1 / (1 + exp y)),
         loss + Glicko2_binary_cross_entropy (1 / (1 + exp y)) outcome))"
    unfolding entry t_def y_def gg_def
    by (simp only: Glicko2_games_loop.simps Glicko2_opponent_def Let_def prod.case)
  from Cons.IH [of "v_sum + t"] have "v_sum + t \<le>
      fst (Glicko2_games_loop self player games (v_sum + t,
         g_sum + gg * (outcome - 1 / (1 + exp y)),
         loss + Glicko2_binary_cross_entropy (1 / (1 + exp y)) outcome))"
    by (rule conjunct1)
  with t show ?case unfolding step by simp
qed

text \<open>
  Claim C10. Every key of the index built by \<open>get_player_games\<close> has a non-empty game
  list, and for such a list the variance sum \<open>v_sum\<close> that
  \<open>Glicko2::update_player_ratings\<close> accumulates from zero is strictly positive over
  the reals, so that \<open>v = 1.0 / v_sum\<close> does not divide by zero.
\<close>

theorem C10_v_sum_positive:
  assumes "map_of (get_player_games rows) player_id = Some games"
  shows "games \<noteq> [] \<and> 0 < fst (Glicko2_games_loop self player games (0, 0, loss))"
  using get_player_games_nonempty [OF assms] Glicko2_games_loop_v_sum [of 0 self player games 0 loss]
  by simp

theorem C10_v_sum_positive_witness:
  "map_of (get_player_games [(1, 2, 1)]) 1 = Some [(2, 1)] \<and>
   [(2::int, 1::real)] \<noteq> [] \<and>
   0 < fst (Glicko2_games_loop Glicko2_default
              \<lparr>rating = 0, deviation = 2, volatility = 0.06, last_month_played = 3\<rparr>
              [(2, 1)] (0, 0, 0))"
proof -
  have h: "map_of (get_player_games [(1, 2, 1)]) 1 = Some [(2, 1)]"
    by (simp add: get_player_games_def static_cast_int_in_range)
  show ?thesis
    using h C10_v_sum_positive [OF h, of Glicko2_default
      "\<lparr>rating = 0, deviation = 2, volatility = 0.06, last_month_played = 3\<rparr>" 0]
    by simp
qed

section \<open>The opponent's strength in \<open>Glicko2::update_player_ratings\<close>\<close>

lemma Glicko2_opponent_registry:
  "Glicko2_opponent (self\<lparr>players := ps\<rparr>) opponent_id = Glicko2_opponent self opponent_id"
  by (simp add: Glicko2_opponent_def)

lemma Glicko2_games_loop_registry:
  "Glicko2_games_loop (self\<lparr>players := ps\<rparr>) player games acc = Glicko2_games_loop self player games acc"
proof (induction games arbitrary: acc)
  case Nil
  show ?case by simp
next
  case (Cons entry games)
  obtain opponent_id outcome where entry: "entry = (opponent_id, outcome)" by (cases entry)
  obtain v_sum g_sum loss where acc: "acc = (v_sum, g_sum, loss)" by (cases acc)
  show ?case
    unfolding entry acc
    by (simp only: Glicko2_games_loop.simps Glicko2_opponent_registry Cons.IH)
qed

lemma Glicko_opponent_stored:
  "Glicko_players self opponent_id = Some second \<Longrightarrow>
   Glicko_opponent self opponent_id = (Glicko_rating second, Glicko_deviation second)"
  by (simp add: Glicko_opponent_def)

text \<open>
  In \<open>Glicko::update_ratings\<close> an opponent that the registry does not hold is inserted
  by \<open>update_player_deviations\<close> before the games are read, value-initialised: it
  enters with the rating 0 and the deviation \<open>sqrt (c\<^sup>2)\<close>.
\<close>

lemma Glicko_unseen_opponent:
  assumes "Glicko_players self 2 = None"
  shows "Glicko_opponent (Glicko_update_player_deviations self [1, 2] month) 2
           = (0, sqrt (0 * 0 + Glicko_c self * Glicko_c self))"
  using assms
  by (simp add: Glicko_opponent_def Glicko_players_at_def Let_def)

text \<open>
  Claim C2. An opponent that is in the registry must enter the computation with its
  stored rating and deviation. \<open>Glicko2::update_player_ratings\<close> looks the opponent up
  and then uses \<open>DEFAULT_RATING\<close> and \<open>starting_deviation\<close> all the same: opponent 2,
  stored with rating 2000 and deviation 100, enters with 1500 and 350.
  \<open>Glicko::update_player_ratings\<close> has the test that is missing here
  (\<open>Glicko_opponent_stored\<close>).
\<close>

theorem C2_registered_opponent_gets_defaults:
  "players (Glicko2_default\<lparr>players :=
       [2 \<mapsto> \<lparr>rating = 2000, deviation = 100, volatility = 0.06, last_month_played = 3\<rparr>]\<rparr>) 2
     = Some \<lparr>rating = 2000, deviation = 100, volatility = 0.06, last_month_played = 3\<rparr> \<and>
   Glicko2_opponent (Glicko2_default\<lparr>players :=
       [2 \<mapsto> \<lparr>rating = 2000, deviation = 100, volatility = 0.06, last_month_played = 3\<rparr>]\<rparr>) 2
     = (1500, 350)"
  by (simp add: Glicko2_opponent_def Glicko2_default_def DEFAULT_RATING_def)

section \<open>The objective function\<close>

lemma Glicko2_f_is_spec_objective:
  "Glicko2_f self x (ln (sigma\<^sup>2)) phi v delta = spec_objective (tau self) sigma phi v delta x"
  by (simp add: Glicko2_f_def spec_objective_def power2_eq_square)

lemma f_is_spec_objective_without_phi:
  "f x delta v (ln (sigma\<^sup>2)) = spec_objective TAU sigma 0 v delta x"
  by (simp add: f_def spec_objective_def power2_eq_square Let_def)

text \<open>
  Claim C3. The objective function must subtract \<open>phi\<^sup>2\<close> in the numerator and add it in
  the squared denominator. \<open>Glicko2::f\<close> does (\<open>Glicko2_f_is_spec_objective\<close>); the \<open>f\<close>
  of the C program has no parameter for the deviation and is the specified function
  at \<open>phi = 0\<close> (\<open>f_is_spec_objective_without_phi\<close>). For a player with \<open>phi = 1\<close>,
  \<open>sigma = 1\<close>, \<open>v = 1\<close>, \<open>delta = 0\<close> it returns \<open>-1/4\<close> at \<open>x = 0\<close>, where the
  specified function is \<open>-1/6\<close>.
\<close>

theorem C3_f_omits_phi:
  "f 0 0 1 (ln (1\<^sup>2)) = - 1 / 4 \<and> spec_objective TAU 1 1 1 0 0 = - 1 / 6"
  by (simp add: f_def spec_objective_def Let_def)

section \<open>Decay and frame of \<open>Glicko2::update_ratings\<close>\<close>

lemma decay_other_fields:
  "tau (Glicko2_update_player_ratings_and_deviations self player_ids month) = tau self \<and>
   epsilon (Glicko2_update_player_ratings_and_deviations self player_ids month) = epsilon self \<and>
   starting_deviation (Glicko2_update_player_ratings_and_deviations self player_ids month) = starting_deviation self \<and>
   starting_volatility (Glicko2_update_player_ratings_and_deviations self player_ids month) = starting_volatility self"
  by (induction self player_ids month rule: Glicko2_update_player_ratings_and_deviations.induct)
     (simp_all add: Let_def)

lemma decay_frame:
  "q \<notin> set player_ids \<Longrightarrow>
   players (Glicko2_update_player_ratings_and_deviations self player_ids month) q = players self q"
  by (induction self player_ids month rule: Glicko2_update_player_ratings_and_deviations.induct)
     (simp_all add: Let_def)


lemma Glicko2_update_player_frame:
  "Glicko2_update_player self player_games player_id loss = Returns (loss', self') \<Longrightarrow>
   q \<noteq> player_id \<Longrightarrow> players self' q = players self q"
  by (auto simp: Glicko2_update_player_def Let_def split: option.splits prod.splits)

lemma Glicko2_players_loop_frame:
  "Glicko2_players_loop self player_games player_ids loss = Returns (loss', self') \<Longrightarrow>
   q \<notin> set player_ids \<Longrightarrow> players self' q = players self q"
proof (induction player_ids arbitrary: self loss)
  case Nil
  then show ?case by simp
next
  case (Cons pid player_ids)
  from Cons.prems(1) obtain l1 s1 where
    one: "Glicko2_update_player self player_games pid loss = Returns (l1, s1)" and
    rest: "Glicko2_players_loop s1 player_games player_ids l1 = Returns (loss', self')"
    by (auto split: run.splits)
  have "players self' q = players s1 q" using Cons.IH [OF rest] Cons.prems(2) by simp
  also have "\<dots> = players self q"
    using Glicko2_update_player_frame [OF one] Cons.prems(2) by simp
  finally show ?case .
qed

lemma emplace_back_keys: "fst ` set (emplace_back k e m) = insert k (fst ` set m)"
  by (induction k e m rule: emplace_back.induct) auto

text \<open>The keys of the index are the ids of the rows as the cast leaves them.\<close>

lemma get_player_games_rows_keys:
  "fst ` set (get_player_games_rows rows m) =
     fst ` set m \<union> (\<lambda>(a, b, c). static_cast_int a) ` set rows
       \<union> (\<lambda>(a, b, c). static_cast_int b) ` set rows"
  by (induction rows m rule: get_player_games_rows.induct)
     (auto simp: emplace_back_keys Let_def)

lemma get_player_ids_keys:
  "set (get_player_ids (get_player_games rows)) =
     (\<lambda>(a, b, c). static_cast_int a) ` set rows \<union> (\<lambda>(a, b, c). static_cast_int b) ` set rows"
  using get_player_games_rows_keys [of rows "[]"]
  by (simp add: get_player_ids_def get_player_games_def)



text \<open>An id beyond the range of \<open>int\<close> is filed under the id the cast wraps it to.\<close>

lemma get_player_games_wrapped_id:
  "get_player_games [(2, 4294967297, 1)] = [(1, [(2, 0)]), (2, [(1, 1)])]"
  by (simp add: get_player_games_def static_cast_int_def)


lemma Glicko2_update_ratings_frame:
  assumes "Glicko2_update_ratings self rows month num_threads output_ratings = Returns (loss, self')"
    and "\<forall>(player_1, player_2, outcome) \<in> set rows.
           q \<noteq> static_cast_int player_1 \<and> q \<noteq> static_cast_int player_2"
  shows "players self' q = players self q"
proof -
  let ?ids = "get_player_ids (get_player_games rows)"
  let ?s1 = "Glicko2_update_player_ratings_and_deviations self ?ids month"
  have q: "q \<notin> set ?ids" using assms(2) by (auto simp: get_player_ids_keys)
  from assms(1) obtain L where
    "Glicko2_players_loop ?s1 (get_player_games rows) ?ids 0 = Returns (L, self')"
    by (auto simp: Glicko2_update_ratings_def Glicko2_update_player_ratings_def Let_def
             split: run.splits)
  then have "players self' q = players ?s1 q" using q by (rule Glicko2_players_loop_frame)
  then show ?thesis using q by (simp add: decay_frame)
qed

section \<open>Runs of \<open>Glicko2::update_ratings\<close> that never enter the solver\<close>

lemma Glicko2_get_new_volatility_nan:
  "delta * delta - dev * dev - v < 0 \<Longrightarrow> 0 < vol \<Longrightarrow>
   Glicko2_get_new_volatility self dev vol v delta = Some vol"
  by (simp add: Glicko2_get_new_volatility_def Let_def)

lemma bce_half: "Glicko2_binary_cross_entropy (1 / 2) outcome = ln 2"
proof -
  have "ln (1 / 2 :: real) = - ln 2" by (simp add: ln_div)
  then show ?thesis by (simp add: Glicko2_binary_cross_entropy_def algebra_simps)
qed

lemma Glicko2_games_loop_draws:
  assumes "rating player = DEFAULT_RATING" and "\<forall>(opponent_id, outcome) \<in> set games. outcome = 1 / 2"
  shows "Glicko2_games_loop self player games (v_sum, g_sum, loss) =
     (v_sum + real (length games)
        * ((1 / sqrt (1 + 3 * (starting_deviation self / 173.7178 / pi)\<^sup>2))\<^sup>2 * (1 / 2) * (1 - 1 / 2)),
      g_sum, loss + real (length games) * ln 2)"
  using assms(2)
proof (induction games arbitrary: v_sum g_sum loss)
  case Nil
  show ?case by simp
next
  case (Cons entry games)
  obtain opponent_id where entry: "entry = (opponent_id, 1 / 2)" using Cons.prems by (cases entry) auto
  have rest: "\<forall>(opponent_id, outcome) \<in> set games. outcome = 1 / 2" using Cons.prems by simp
  have e: "1 / (1 + exp (- (1 / sqrt (1 + 3 * (starting_deviation self / 173.7178 / pi)\<^sup>2))
              * (rating player - DEFAULT_RATING) * 173.7178 / 400)) = (1 / 2 :: real)"
    by (simp add: assms(1))
  show ?case
    unfolding entry
    apply (simp only: Glicko2_games_loop.simps Glicko2_opponent_def Let_def prod.case e bce_half
        Cons.IH [OF rest])
    apply (simp add: algebra_simps)
    done
qed


lemma Glicko2_update_player_draws:
  assumes games: "map_of player_games player_id = Some games" "games \<noteq> []"
    and draws: "\<forall>(opponent_id, outcome) \<in> set games. outcome = 1 / 2"
    and even: "rating (Glicko2_players_at self player_id) = DEFAULT_RATING"
    and vol: "0 < volatility (Glicko2_players_at self player_id)"
  shows "\<exists>self'. Glicko2_update_player self player_games player_id loss
            = Returns (loss + real (length games) * ln 2, self') \<and>
          (\<forall>q. q \<noteq> player_id \<longrightarrow> players self' q = players self q)"
proof -
  let ?p = "Glicko2_players_at self player_id"
  let ?s = "self\<lparr>players := (players self)(player_id \<mapsto> ?p)\<rparr>"
  define t where "t = (1 / sqrt (1 + 3 * (starting_deviation self / 173.7178 / pi)\<^sup>2))\<^sup>2 * (1 / 2) * (1 - 1 / (2::real))"
  have t: "0 < t" unfolding t_def using impact_pos [of "starting_deviation self / 173.7178 / pi"] by simp
  define v_sum where "v_sum = real (length games) * t"
  have n: "0 < real (length games)" using games(2) by simp
  have v_sum: "0 < v_sum" unfolding v_sum_def using n t by (rule mult_pos_pos)
  have loop: "Glicko2_games_loop ?s ?p games (0, 0, loss) = (v_sum, 0, loss + real (length games) * ln 2)"
    using Glicko2_games_loop_draws [OF even draws, of ?s 0 0 loss]
    by (simp add: v_sum_def t_def)
  have sq: "0 \<le> deviation ?p * deviation ?p" by simp
  have inv: "0 < 1 / v_sum" using v_sum by simp
  have z: "1 / v_sum * 0 * (1 / v_sum * 0) = 0" by simp
  have arg: "1 / v_sum * 0 * (1 / v_sum * 0) - deviation ?p * deviation ?p - 1 / v_sum < 0"
    unfolding z using sq inv by linarith
  have nv: "Glicko2_get_new_volatility ?s (deviation ?p) (volatility ?p) (1 / v_sum) (1 / v_sum * 0)
      = Some (volatility ?p)"
    using arg vol by (rule Glicko2_get_new_volatility_nan)
  show ?thesis
    unfolding Glicko2_update_player_def Let_def
    by (simp only: games(1) option.case loop prod.case nv) simp
qed


lemma Glicko2_players_at_cong:
  "players self' q = players self q \<Longrightarrow> Glicko2_players_at self' q = Glicko2_players_at self q"
  by (simp add: Glicko2_players_at_def)

lemma Glicko2_players_loop_draws:
  assumes "distinct player_ids"
    and "\<forall>player_id \<in> set player_ids. \<exists>games. map_of player_games player_id = Some games \<and>
           games \<noteq> [] \<and> (\<forall>(opponent_id, outcome) \<in> set games. outcome = 1 / 2) \<and>
           rating (Glicko2_players_at self player_id) = DEFAULT_RATING \<and>
           0 < volatility (Glicko2_players_at self player_id)"
  shows "\<exists>self'. Glicko2_players_loop self player_games player_ids loss
            = Returns (loss + (\<Sum>player_id\<leftarrow>player_ids.
                 real (length (the (map_of player_games player_id)))) * ln 2, self')"
  using assms
proof (induction player_ids arbitrary: self loss)
  case Nil
  show ?case by simp
next
  case (Cons pid player_ids)
  from Cons.prems(2) obtain games where
    games: "map_of player_games pid = Some games" "games \<noteq> []"
    and draws: "\<forall>(opponent_id, outcome) \<in> set games. outcome = 1 / 2"
    and even: "rating (Glicko2_players_at self pid) = DEFAULT_RATING"
    and vol: "0 < volatility (Glicko2_players_at self pid)"
    by auto
  from Glicko2_update_player_draws [OF games draws even vol, of loss] obtain s1 where
    one: "Glicko2_update_player self player_games pid loss
            = Returns (loss + real (length games) * ln 2, s1)"
    and frame: "\<forall>q. q \<noteq> pid \<longrightarrow> players s1 q = players self q"
    by blast
  have d: "distinct player_ids" and notin: "pid \<notin> set player_ids" using Cons.prems(1) by simp_all
  have at: "Glicko2_players_at s1 q = Glicko2_players_at self q" if "q \<in> set player_ids" for q
    using frame notin that by (intro Glicko2_players_at_cong) auto
  have pre: "\<forall>player_id \<in> set player_ids. \<exists>games. map_of player_games player_id = Some games \<and>
           games \<noteq> [] \<and> (\<forall>(opponent_id, outcome) \<in> set games. outcome = 1 / 2) \<and>
           rating (Glicko2_players_at s1 player_id) = DEFAULT_RATING \<and>
           0 < volatility (Glicko2_players_at s1 player_id)"
    using Cons.prems(2) at by simp
  from Cons.IH [OF d pre, of "loss + real (length games) * ln 2"] obtain s2 where
    rest: "Glicko2_players_loop s1 player_games player_ids (loss + real (length games) * ln 2)
      = Returns (loss + real (length games) * ln 2 + (\<Sum>player_id\<leftarrow>player_ids.
                 real (length (the (map_of player_games player_id)))) * ln 2, s2)"
    by blast
  show ?case
    by (rule exI [of _ s2]) (simp add: one rest games(1) algebra_simps)
qed

lemma tie_index:
  "get_player_games tie_games = [(1, [(2, 1 / 2), (3, 1 / 2)]), (2, [(1, 1 / 2)]), (3, [(1, 1 / 2)])]"
  by (simp add: get_player_games_def tie_games_def static_cast_int_in_range)

lemma tie_run:
  "\<exists>self'. Glicko2_update_ratings tie_registry tie_games 5 1 False = Returns (4 * ln 2 / (2 * 3), self')"
proof -
  let ?pg = "get_player_games tie_games"
  define s1 where "s1 = Glicko2_update_player_ratings_and_deviations tie_registry [1, 2, 3] 5"
  have ids: "get_player_ids ?pg = [1, 2, 3]" by (simp add: tie_index get_player_ids_def)
  have p: "players s1 q = Some \<lparr>rating = 1500, deviation = 1, volatility = 0.06, last_month_played = 5\<rparr>"
    if "q \<in> {1, 2, 3}" for q
    using that unfolding s1_def
    by (auto simp: tie_registry_def Glicko2_default_def Glicko2_players_at_def Let_def)
  have pre: "\<forall>player_id \<in> set [1, 2, 3]. \<exists>games. map_of ?pg player_id = Some games \<and>
           games \<noteq> [] \<and> (\<forall>(opponent_id, outcome) \<in> set games. outcome = 1 / 2) \<and>
           rating (Glicko2_players_at s1 player_id) = DEFAULT_RATING \<and>
           0 < volatility (Glicko2_players_at s1 player_id)"
    by (simp add: tie_index Glicko2_players_at_def p DEFAULT_RATING_def)
  have "distinct [1, 2, 3 :: int]" by simp
  from Glicko2_players_loop_draws [OF this pre, of 0] obtain s2 where
    loop: "Glicko2_players_loop s1 ?pg [1, 2, 3] 0 = Returns (0 + (\<Sum>player_id\<leftarrow>[1, 2, 3].
                 real (length (the (map_of ?pg player_id)))) * ln 2, s2)"
    by blast
  have total: "0 + (\<Sum>player_id\<leftarrow>[1, 2, 3 :: int]. real (length (the (map_of ?pg player_id)))) * ln 2
      = 4 * ln (2 :: real)"
    by (simp add: tie_index)
  have "Glicko2_update_ratings tie_registry tie_games 5 1 False
      = Returns (4 * ln 2 / (2 * real (length [1, 2, 3 :: int])), s2)"
    unfolding Glicko2_update_ratings_def Glicko2_update_player_ratings_def Let_def ids
      s1_def [symmetric] loop total
    by (simp only: run.case prod.case)
  then show ?thesis by simp
qed

section \<open>The decay of the deviation and the players without games\<close>




text \<open>
  Claim C8, as amended. Whenever \<open>Glicko2::update_ratings\<close> returns, a player of the
  registry who is in no game record of the period keeps its rating, deviation,
  volatility and \<open>last_month_played\<close>: the decay for the months it sits out is applied
  when it next plays (\<open>decay_effect\<close>). A player is in a game record when its id is the
  record's \<open>player_1\<close> or \<open>player_2\<close> as the program reads them, cast from \<open>int64\<close> to
  \<open>int\<close>: the record \<open>(2, 4294967297, 1.0)\<close> is a game of player 1
  (\<open>get_player_games_wrapped_id\<close>).
\<close>

theorem C8_absent_player_untouched:
  assumes "returned_loss (Glicko2_update_ratings self rows month num_threads output_ratings) \<noteq> None"
    and "\<forall>(player_1, player_2, outcome) \<in> set rows.
           q \<noteq> static_cast_int player_1 \<and> q \<noteq> static_cast_int player_2"
  shows "Glicko2_player_after (Glicko2_update_ratings self rows month num_threads output_ratings) q
           = players self q"
proof -
  from assms(1) obtain loss self' where
    r: "Glicko2_update_ratings self rows month num_threads output_ratings = Returns (loss, self')"
    by (auto simp: returned_loss_def split: run.splits)
  show ?thesis
    using Glicko2_update_ratings_frame [OF r assms(2)]
    by (simp add: Glicko2_player_after_def r)
qed

theorem C8_absent_player_untouched_witness:
  "returned_loss (Glicko2_update_ratings tie_registry tie_games 5 1 False) \<noteq> None \<and>
   Glicko2_player_after (Glicko2_update_ratings tie_registry tie_games 5 1 False) 4
     = players tie_registry 4"
proof -
  from tie_run obtain self' where
    "Glicko2_update_ratings tie_registry tie_games 5 1 False = Returns (4 * ln 2 / (2 * 3), self')"
    by blast
  then have r: "returned_loss (Glicko2_update_ratings tie_registry tie_games 5 1 False) \<noteq> None"
    by (simp only: returned_loss_def run.case prod.case) simp
  have a: "\<forall>(player_1, player_2, outcome) \<in> set tie_games.
      4 \<noteq> static_cast_int player_1 \<and> 4 \<noteq> static_cast_int player_2"
    by (simp add: tie_games_def static_cast_int_in_range)
  show ?thesis using r C8_absent_player_untouched [OF r a] by simp
qed

text \<open>
  Claim C8 as stated fails: player 4 last played in month 0 and is in no game of month
  5, and its deviation is 200 before the update and after it.
\<close>

theorem C8_deviation_of_absent_player_stays:
  "map_option deviation
     (Glicko2_player_after (Glicko2_update_ratings tie_registry tie_games 5 1 False) 4) = Some 200 \<and>
   map_option deviation (players tie_registry 4) = Some 200 \<and>
   map_option last_month_played (players tie_registry 4) = Some 0"
proof -
  from tie_run obtain self' where
    r: "Glicko2_update_ratings tie_registry tie_games 5 1 False = Returns (4 * ln 2 / (2 * 3), self')"
    by blast
  have a: "\<forall>(player_1, player_2, outcome) \<in> set tie_games.
      4 \<noteq> static_cast_int player_1 \<and> 4 \<noteq> static_cast_int player_2"
    by (simp add: tie_games_def static_cast_int_in_range)
  have after: "Glicko2_player_after (Glicko2_update_ratings tie_registry tie_games 5 1 False) 4
      = players self' 4"
    by (simp only: r Glicko2_player_after_def run.case prod.case)
  have p: "players tie_registry 4 =
      Some \<lparr>rating = 1500, deviation = 200, volatility = 0.06, last_month_played = 0\<rparr>"
    by (simp add: tie_registry_def)
  show ?thesis
    unfolding after Glicko2_update_ratings_frame [OF r a] p by simp
qed

section \<open>The loss that \<open>update_ratings\<close> returns\<close>

lemma Glicko_update_player_returns:
  "map_of player_games player_id = Some games \<Longrightarrow>
   \<exists>r. Glicko_update_player self player_games player_id = Returns r"
  by (simp add: Glicko_update_player_def Let_def split: prod.splits)

lemma Glicko_players_loop_returns:
  "\<forall>player_id \<in> set player_ids. map_of player_games player_id \<noteq> None \<Longrightarrow>
   \<exists>r. Glicko_players_loop self player_games player_ids updated_players = Returns r"
proof (induction player_ids arbitrary: self updated_players)
  case Nil
  show ?case by simp
next
  case (Cons pid player_ids)
  from Cons.prems obtain games where "map_of player_games pid = Some games" by auto
  from Glicko_update_player_returns [OF this, of self] obtain s1 u where
    one: "Glicko_update_player self player_games pid = Returns (s1, u)" by force
  have "\<forall>player_id \<in> set player_ids. map_of player_games player_id \<noteq> None"
    using Cons.prems by simp
  from Cons.IH [OF this, of s1 "updated_players @ [u]"] show ?case
    by (simp add: one)
qed

text \<open>\<open>Glicko::update_ratings\<close> returns the loss zero whatever the games are.\<close>

lemma Glicko_update_ratings_loss:
  assumes "rows \<noteq> []"
  shows "returned_loss (Glicko_update_ratings self rows month num_threads output_ratings) = Some 0"
proof -
  let ?pg = "get_player_games rows"
  let ?s1 = "Glicko_update_player_deviations self (get_player_ids ?pg) month"
  have "\<forall>player_id \<in> set (get_player_ids ?pg). map_of ?pg player_id \<noteq> None"
    by (auto simp: get_player_ids_def map_of_eq_None_iff)
  from Glicko_players_loop_returns [OF this, of ?s1 "[]"] obtain s2 ups where
    "Glicko_players_loop ?s1 ?pg (get_player_ids ?pg) [] = Returns (s2, ups)" by force
  then show ?thesis
    by (simp add: Glicko_update_ratings_def Glicko_update_player_ratings_def Let_def
        returned_loss_def)
qed

text \<open>
  Claim C9. The returned loss must be the sum of the losses of the game entries divided
  by twice the number of games. \<open>Glicko2::update_player_ratings\<close> divides by twice the
  number of players: the two drawn games of \<open>tie_games\<close> make four entries, each with
  expected score one half and loss \<open>ln 2\<close>, the three players 1, 2, 3 take part, and
  the call returns \<open>4 ln 2 / (2 * 3)\<close>, not \<open>4 ln 2 / (2 * 2)\<close>.
  \<open>Glicko::update_player_ratings\<close> never adds to \<open>total_loss\<close> and returns zero.
\<close>

theorem C9_loss_average:
  "returned_loss (Glicko2_update_ratings tie_registry tie_games 5 1 False) = Some (4 * ln 2 / (2 * 3)) \<and>
   4 * ln 2 / (2 * 3) \<noteq> 4 * ln 2 / (2 * real (length tie_games)) \<and>
   Glicko2_binary_cross_entropy (1 / 2) (1 / 2) = ln 2 \<and>
   returned_loss (Glicko_update_ratings Glicko_pair [(1, 2, 1)] 5 1 False) = Some 0"
proof -
  have pos: "0 < ln (2 :: real)" by simp
  have den: "4 * ln 2 / (2 * 3) \<noteq> 4 * ln 2 / (2 * real (length tie_games))"
    using pos by (simp add: tie_games_def)
  from tie_run obtain self' where
    "Glicko2_update_ratings tie_registry tie_games 5 1 False = Returns (4 * ln 2 / (2 * 3), self')"
    by blast
  then have "returned_loss (Glicko2_update_ratings tie_registry tie_games 5 1 False)
      = Some (4 * ln 2 / (2 * 3))"
    by (simp only: returned_loss_def run.case prod.case)
  moreover have "returned_loss (Glicko_update_ratings Glicko_pair [(1, 2, 1)] 5 1 False) = Some 0"
    by (rule Glicko_update_ratings_loss) simp
  ultimately show ?thesis using den bce_half [of "1 / 2"] by (intro conjI)
qed

section \<open>The order of the players in \<open>Glicko::update_player_ratings\<close>\<close>

lemma Glicko_games_loop_one_draw:
  assumes "Glicko_players self opponent_id = Some second"
    and "Glicko_rating second = Glicko_rating player"
  shows "Glicko_games_loop self player [(opponent_id, 1 / 2)] (0, 0) =
     ((1 / sqrt (1 + 3 * Q\<^sup>2 * (Glicko_deviation second)\<^sup>2 / (pi * pi)))\<^sup>2 * (1 / 2) * (1 - 1 / 2), 0)"
proof -
  have opp: "Glicko_opponent self opponent_id = (Glicko_rating player, Glicko_deviation second)"
    using assms by (simp add: Glicko_opponent_def)
  have e: "1 / (1 + exp (- (1 / sqrt (1 + 3 * Q\<^sup>2 * (Glicko_deviation second)\<^sup>2 / (pi * pi)))
      * (Glicko_rating player - Glicko_rating player) / 400)) = (1 / 2 :: real)"
    by simp
  show ?thesis
    by (simp only: Glicko_games_loop.simps opp prod.case Let_def e) simp
qed

text \<open>The square of the new deviation after one drawn game between equally rated players.\<close>

lemma Glicko_update_player_one_draw:
  assumes games: "map_of player_games player_id = Some [(opponent_id, 1 / 2)]"
    and p: "Glicko_players self player_id = Some player"
    and o: "Glicko_players self opponent_id = Some second"
    and r: "Glicko_rating second = Glicko_rating player"
  shows "Glicko_update_player self player_games player_id =
     Returns (self\<lparr>Glicko_players := (Glicko_players self)(player_id \<mapsto>
                player\<lparr>Glicko_deviation := sqrt (1 / (Glicko_deviation player)\<^sup>2
                  + 16 * (1 + 3 * Q\<^sup>2 * (Glicko_deviation second)\<^sup>2 / (pi * pi))\<^sup>2)\<rparr>)\<rparr>,
              (player_id, player\<lparr>Glicko_deviation := sqrt (1 / (Glicko_deviation player)\<^sup>2
                  + 16 * (1 + 3 * Q\<^sup>2 * (Glicko_deviation second)\<^sup>2 / (pi * pi))\<^sup>2)\<rparr>))"
proof -
  let ?s = "self\<lparr>Glicko_players := (Glicko_players self)(player_id \<mapsto> player)\<rparr>"
  define y where "y = 1 + 3 * Q\<^sup>2 * (Glicko_deviation second)\<^sup>2 / (pi * pi)"
  have y: "0 < y" unfolding y_def by (intro add_pos_nonneg) simp_all
  have at: "Glicko_players_at self player_id = player" using p by (simp add: Glicko_players_at_def)
  have same: "?s = self" using p by (simp add: fun_upd_idem)
  have loop: "Glicko_games_loop ?s player [(opponent_id, 1 / 2)] (0, 0) =
      ((1 / sqrt y)\<^sup>2 * (1 / 2) * (1 - 1 / 2), 0)"
    unfolding same y_def using o r by (rule Glicko_games_loop_one_draw)
  have sq: "(1 / sqrt y)\<^sup>2 = 1 / y" using y by (simp add: power_divide)
  have d: "1 / ((1 / sqrt y)\<^sup>2 * (1 / 2) * (1 - 1 / 2))\<^sup>2 = 16 * y\<^sup>2"
    unfolding sq using y by (simp add: field_simps power2_eq_square)
  show ?thesis
    unfolding Glicko_update_player_def Let_def
    by (simp only: games option.case at loop prod.case d) (simp add: y_def)
qed


lemma pair_index: "pair_index = [(1, [(2, 1 / 2)]), (2, [(1, 1 / 2)])]"
  by (simp add: pair_index_def get_player_games_def static_cast_int_in_range)

text \<open>
  Two players with the ratings and deviations \<open>r\<close>, \<open>d\<^sub>1\<close>, \<open>d\<^sub>2\<close> who drew their one game:
  the one updated second is computed from the new deviation of the one updated first.
\<close>

lemma Glicko_two_player_run:
  assumes ids: "a \<noteq> b"
    and games: "map_of player_games a = Some [(b, 1 / 2)]" "map_of player_games b = Some [(a, 1 / 2)]"
    and pa: "Glicko_players self a = Some pa" and pb: "Glicko_players self b = Some pb"
    and r: "Glicko_rating pa = Glicko_rating pb"
  shows "Glicko_player_after (Glicko_update_player_ratings self player_games [a, b] month num_threads) b =
     Some (pb\<lparr>Glicko_deviation := sqrt (1 / (Glicko_deviation pb)\<^sup>2
        + 16 * (1 + 3 * Q\<^sup>2 * (sqrt (1 / (Glicko_deviation pa)\<^sup>2
            + 16 * (1 + 3 * Q\<^sup>2 * (Glicko_deviation pb)\<^sup>2 / (pi * pi))\<^sup>2))\<^sup>2 / (pi * pi))\<^sup>2)\<rparr>)"
    and "Glicko_player_after (Glicko_update_player_ratings self player_games [a, b] month num_threads) a =
     Some (pa\<lparr>Glicko_deviation := sqrt (1 / (Glicko_deviation pa)\<^sup>2
            + 16 * (1 + 3 * Q\<^sup>2 * (Glicko_deviation pb)\<^sup>2 / (pi * pi))\<^sup>2)\<rparr>)"
proof -
  define pa' where "pa' = pa\<lparr>Glicko_deviation := sqrt (1 / (Glicko_deviation pa)\<^sup>2
            + 16 * (1 + 3 * Q\<^sup>2 * (Glicko_deviation pb)\<^sup>2 / (pi * pi))\<^sup>2)\<rparr>"
  define s1 where "s1 = self\<lparr>Glicko_players := (Glicko_players self)(a \<mapsto> pa')\<rparr>"
  define pb' where "pb' = pb\<lparr>Glicko_deviation := sqrt (1 / (Glicko_deviation pb)\<^sup>2
            + 16 * (1 + 3 * Q\<^sup>2 * (Glicko_deviation pa')\<^sup>2 / (pi * pi))\<^sup>2)\<rparr>"
  define s2 where "s2 = s1\<lparr>Glicko_players := (Glicko_players s1)(b \<mapsto> pb')\<rparr>"
  have one: "Glicko_update_player self player_games a = Returns (s1, (a, pa'))"
    unfolding s1_def pa'_def
    using games(1) pa pb r [symmetric] by (rule Glicko_update_player_one_draw)
  have s1a: "Glicko_players s1 a = Some pa'" and s1b: "Glicko_players s1 b = Some pb"
    using ids pb by (simp_all add: s1_def)
  have r': "Glicko_rating pa' = Glicko_rating pb" using r by (simp add: pa'_def)
  have two: "Glicko_update_player s1 player_games b = Returns (s2, (b, pb'))"
    unfolding s2_def pb'_def
    using games(2) s1b s1a r' by (rule Glicko_update_player_one_draw)
  have loop: "Glicko_players_loop self player_games [a, b] [] = Returns (s2, [(a, pa'), (b, pb')])"
    by (simp add: one two)
  have run: "Glicko_update_player_ratings self player_games [a, b] month num_threads =
      Returns (0 / (2 * real (length [a, b])), Glicko_set_new_ratings s2 [(a, pa'), (b, pb')])"
    unfolding Glicko_update_player_ratings_def Let_def loop
    by (simp only: run.case prod.case)
  have fin: "Glicko_players (Glicko_set_new_ratings s2 [(a, pa'), (b, pb')]) b = Some pb'"
    "Glicko_players (Glicko_set_new_ratings s2 [(a, pa'), (b, pb')]) a = Some pa'"
    using ids by (simp_all add: s2_def s1_def)
  show "Glicko_player_after (Glicko_update_player_ratings self player_games [a, b] month num_threads) b =
     Some (pb\<lparr>Glicko_deviation := sqrt (1 / (Glicko_deviation pb)\<^sup>2
        + 16 * (1 + 3 * Q\<^sup>2 * (sqrt (1 / (Glicko_deviation pa)\<^sup>2
            + 16 * (1 + 3 * Q\<^sup>2 * (Glicko_deviation pb)\<^sup>2 / (pi * pi))\<^sup>2))\<^sup>2 / (pi * pi))\<^sup>2)\<rparr>)"
    unfolding run Glicko_player_after_def
    by (simp only: run.case prod.case fin) (simp add: pb'_def pa'_def)
  show "Glicko_player_after (Glicko_update_player_ratings self player_games [a, b] month num_threads) a =
     Some (pa\<lparr>Glicko_deviation := sqrt (1 / (Glicko_deviation pa)\<^sup>2
            + 16 * (1 + 3 * Q\<^sup>2 * (Glicko_deviation pb)\<^sup>2 / (pi * pi))\<^sup>2)\<rparr>)"
    unfolding run Glicko_player_after_def
    by (simp only: run.case prod.case fin) (simp add: pa'_def)
qed

lemma Q_bounds: "0 < 3 * Q\<^sup>2 / (pi * pi) \<and> 3 * Q\<^sup>2 / (pi * pi) * 350\<^sup>2 < 58"
proof -
  have l0: "0 < ln (10 :: real)" by simp
  have l1: "ln (10 :: real) < 10" using ln_less_self [of "10 :: real"] by simp
  have "(ln (10 :: real))\<^sup>2 < 10\<^sup>2" using l0 l1 by (intro power_strict_mono) simp_all
  then have q: "Q\<^sup>2 < 100 / 160000" by (simp add: Q_def power_divide)
  have q0: "0 < Q\<^sup>2" using l0 by (simp add: Q_def)
  have "2 * 2 \<le> pi * pi" using pi_ge_two by (intro mult_mono) simp_all
  then have p: "4 \<le> pi * pi" by simp
  have pos: "0 < 3 * Q\<^sup>2 / (pi * pi)" using q0 p by simp
  have "3 * Q\<^sup>2 / (pi * pi) < 3 * (100 / 160000) / 4"
    using q q0 p by (intro frac_less) simp_all
  then have "3 * Q\<^sup>2 / (pi * pi) * 350\<^sup>2 < 3 * (100 / 160000) / 4 * 350\<^sup>2"
    by (intro mult_strict_right_mono) simp_all
  also have "\<dots> < 58" by simp
  finally show ?thesis using pos by simp
qed

lemma pair_second_sees_first:
  "sqrt (1 / 350\<^sup>2 + 16 * (1 + 3 * Q\<^sup>2 * (sqrt (1 / 350\<^sup>2
      + 16 * (1 + 3 * Q\<^sup>2 * 350\<^sup>2 / (pi * pi))\<^sup>2))\<^sup>2 / (pi * pi))\<^sup>2)
   < sqrt (1 / 350\<^sup>2 + 16 * (1 + 3 * Q\<^sup>2 * 350\<^sup>2 / (pi * pi))\<^sup>2)"
proof -
  define k where "k = 3 * Q\<^sup>2 / (pi * pi)"
  have k: "0 < k" "k * 350\<^sup>2 < 58" using Q_bounds by (simp_all add: k_def)
  define D where "D = 1 / 350\<^sup>2 + 16 * (1 + k * 350\<^sup>2)\<^sup>2"
  have kn: "0 \<le> k * 350\<^sup>2" using k(1) by simp
  have "(1 + k * 350\<^sup>2)\<^sup>2 < 59\<^sup>2" using kn k(2) by (intro power_strict_mono) simp_all
  then have D1: "D < 350\<^sup>2" by (simp add: D_def)
  have D0: "0 \<le> D" unfolding D_def by (intro add_nonneg_nonneg mult_nonneg_nonneg) simp_all
  have "k * D < k * 350\<^sup>2" using D1 k(1) by (rule mult_strict_left_mono)
  moreover have "0 \<le> k * D" using k(1) D0 by simp
  ultimately have "(1 + k * D)\<^sup>2 < (1 + k * 350\<^sup>2)\<^sup>2" by (intro power_strict_mono) simp_all
  then have "1 / 350\<^sup>2 + 16 * (1 + k * D)\<^sup>2 < 1 / 350\<^sup>2 + 16 * (1 + k * 350\<^sup>2)\<^sup>2" by simp
  then have "sqrt (1 / 350\<^sup>2 + 16 * (1 + k * (sqrt D)\<^sup>2)\<^sup>2)
      < sqrt (1 / 350\<^sup>2 + 16 * (1 + k * 350\<^sup>2)\<^sup>2)"
    using D0 by (simp only: real_sqrt_less_iff real_sqrt_pow2)
  then show ?thesis
    unfolding D_def k_def by (simp only: times_divide_eq_left)
qed


text \<open>
  Claim C1. Every player's update must read the opponents' rating and deviation as
  they were before the period, so that the order of the players does not matter.
  \<open>Glicko::update_player_ratings\<close> writes each result through the reference \<open>player\<close>
  into the map that the next iterations read. For the two players of \<open>Glicko_pair\<close>
  and their drawn game, player 2 ends with a smaller deviation when player 1 is updated
  first than when player 2 is: in the order \<open>[1, 2]\<close> it is computed from the new
  deviation of player 1.
\<close>

theorem C1_iteration_order_changes_result:
  "map_option Glicko_deviation
     (Glicko_player_after (Glicko_update_player_ratings Glicko_pair pair_index [1, 2] 5 2) 2)
     = Some (sqrt (1 / 350\<^sup>2 + 16 * (1 + 3 * Q\<^sup>2 * (sqrt (1 / 350\<^sup>2
          + 16 * (1 + 3 * Q\<^sup>2 * 350\<^sup>2 / (pi * pi))\<^sup>2))\<^sup>2 / (pi * pi))\<^sup>2)) \<and>
   map_option Glicko_deviation
     (Glicko_player_after (Glicko_update_player_ratings Glicko_pair pair_index [2, 1] 5 2) 2)
     = Some (sqrt (1 / 350\<^sup>2 + 16 * (1 + 3 * Q\<^sup>2 * 350\<^sup>2 / (pi * pi))\<^sup>2)) \<and>
   sqrt (1 / 350\<^sup>2 + 16 * (1 + 3 * Q\<^sup>2 * (sqrt (1 / 350\<^sup>2
          + 16 * (1 + 3 * Q\<^sup>2 * 350\<^sup>2 / (pi * pi))\<^sup>2))\<^sup>2 / (pi * pi))\<^sup>2)
     < sqrt (1 / 350\<^sup>2 + 16 * (1 + 3 * Q\<^sup>2 * 350\<^sup>2 / (pi * pi))\<^sup>2)"
proof -
  let ?p = "\<lparr>Glicko_rating = 1500, Glicko_deviation = 350, Glicko_last_month_played = 4\<rparr>"
  have g1: "map_of pair_index 1 = Some [(2, 1 / 2)]" and g2: "map_of pair_index 2 = Some [(1, 1 / 2)]"
    by (simp_all add: pair_index)
  have p1: "Glicko_players Glicko_pair 1 = Some ?p" and p2: "Glicko_players Glicko_pair 2 = Some ?p"
    by (simp_all add: Glicko_pair_def)
  have n12: "(1 :: int) \<noteq> 2" and n21: "(2 :: int) \<noteq> 1" by simp_all
  have a: "map_option Glicko_deviation
     (Glicko_player_after (Glicko_update_player_ratings Glicko_pair pair_index [1, 2] 5 2) 2)
     = Some (sqrt (1 / 350\<^sup>2 + 16 * (1 + 3 * Q\<^sup>2 * (sqrt (1 / 350\<^sup>2
          + 16 * (1 + 3 * Q\<^sup>2 * 350\<^sup>2 / (pi * pi))\<^sup>2))\<^sup>2 / (pi * pi))\<^sup>2))"
    unfolding Glicko_two_player_run(1) [OF n12 g1 g2 p1 p2 refl] by simp
  have b: "map_option Glicko_deviation
     (Glicko_player_after (Glicko_update_player_ratings Glicko_pair pair_index [2, 1] 5 2) 2)
     = Some (sqrt (1 / 350\<^sup>2 + 16 * (1 + 3 * Q\<^sup>2 * 350\<^sup>2 / (pi * pi))\<^sup>2))"
    unfolding Glicko_two_player_run(2) [OF n21 g2 g1 p2 p1 refl] by simp
  show ?thesis using a b pair_second_sees_first by (intro conjI)
qed

text \<open>
  The C program stages its results: \<open>glicko2_update\<close> writes \<open>new_rating\<close> and \<open>new_rd\<close>
  and leaves \<open>rating\<close> and \<open>rd\<close>, which the updates of the other players read, to
  \<open>apply_new_ratings\<close>.
\<close>

lemma glicko2_commit_keeps_rating:
  "Player_rating (fst (glicko2_commit log_ok target mu phi v delta_sum A)) = Player_rating target \<and>
   Player_rd (fst (glicko2_commit log_ok target mu phi v delta_sum A)) = Player_rd target"
  by (simp add: glicko2_commit_def Let_def)

lemma glicko2_update_keeps_rating:
  "glicko2_update log_ok hash_table target games = Some (target', records) \<Longrightarrow>
   Player_rating target' = Player_rating target \<and> Player_rd target' = Player_rd target"
  using glicko2_commit_keeps_rating
  by (auto simp: glicko2_update_def Let_def split: prod.splits option.splits if_splits)
     (metis fst_conv)+

section \<open>The bracket of the solver in \<open>glicko2_update\<close>\<close>

lemma objective_first_term_lower:
  fixes e d K :: real
  assumes e: "0 < e" and K: "0 \<le> K" and d: "0 \<le> d"
  shows "- (1 / 2) \<le> e * (d - K - e) / (2 * (K + e)\<^sup>2)"
proof -
  have s: "0 < K + e" using e K by linarith
  have den: "0 < 2 * (K + e)\<^sup>2" using s by simp
  have "e * (K + e) \<le> (K + e) * (K + e)" using s K by (intro mult_right_mono) simp_all
  moreover have "0 \<le> e * d" using e d by simp
  ultimately have "- ((K + e) * (K + e)) \<le> e * (d - K - e)" by (simp add: algebra_simps)
  then have "- (1 / 2) * (2 * (K + e)\<^sup>2) \<le> e * (d - K - e)" by (simp add: power2_eq_square)
  then show ?thesis using den by (simp only: pos_le_divide_eq)
qed

lemma f_one_step_below:
  assumes "0 \<le> v"
  shows "0 \<le> f (a - real_of_int 1 * TAU) delta v a"
proof -
  have "- (1 / 2) \<le> exp (a - TAU) * (delta * delta - v - exp (a - TAU)) / (2 * (v + exp (a - TAU))\<^sup>2)"
    using assms by (intro objective_first_term_lower) simp_all
  moreover have "- ((a - TAU - a) / TAU\<^sup>2) = 5" by (simp add: TAU_def power2_eq_square)
  ultimately show ?thesis by (simp add: f_def Let_def)
qed

lemma glicko2_search_k_first:
  assumes "0 \<le> v"
  shows "glicko2_search_k a delta v a 1 = Some 1"
  using f_one_step_below [OF assms, of a delta]
  by (subst glicko2_search_k.simps) simp

text \<open>What the search returns when it returns, for any \<open>v\<close>.\<close>

lemma glicko2_search_k_least:
  assumes "glicko2_search_k a delta v A k0 = Some k"
  shows "k0 \<le> k \<and> \<not> f (a - real_of_int k * TAU) delta v A < 0 \<and>
   (\<forall>j. k0 \<le> j \<and> j < k \<longrightarrow> f (a - real_of_int j * TAU) delta v A < 0)"
  using assms
proof (induct rule: glicko2_search_k.raw_induct [rotated 1, consumes 1])
  case (1 search a delta v A k0 k)
  show ?case
  proof (cases "f (a - real_of_int k0 * TAU) delta v A < 0")
    case True
    then have "search a delta v A (k0 + 1) = Some k" using 1(2) by simp
    from 1(1) [OF this] have ih: "k0 + 1 \<le> k" "\<not> f (a - real_of_int k * TAU) delta v A < 0"
      "\<forall>j. k0 + 1 \<le> j \<and> j < k \<longrightarrow> f (a - real_of_int j * TAU) delta v A < 0" by simp_all
    have "f (a - real_of_int j * TAU) delta v A < 0" if "k0 \<le> j" "j < k" for j
    proof (cases "j = k0")
      case True
      then show ?thesis using \<open>f (a - real_of_int k0 * TAU) delta v A < 0\<close> by simp
    next
      case False
      then show ?thesis using that ih(3) by simp
    qed
    then show ?thesis using ih(1,2) by simp
  next
    case False
    then have "k = k0" using 1(2) by simp
    then show ?thesis using False by simp
  qed
qed

lemma glicko2_bracket_search:
  assumes "0 \<le> v" and "\<not> delta\<^sup>2 > phi\<^sup>2 + v"
  shows "glicko2_bracket vol phi v delta = Some (ln (vol\<^sup>2), ln (vol\<^sup>2) - real_of_int 1 * TAU)"
  using assms(2) glicko2_search_k_first [OF assms(1), of "ln (vol\<^sup>2)" delta]
  by (simp add: glicko2_bracket_def Let_def)

text \<open>
  Claim C4, as amended. For \<open>v \<ge> 0\<close> (it is the inverse of a sum of non-negative
  terms) the solver of \<open>glicko2_update\<close> starts from \<open>A = a = ln (sigma\<^sup>2)\<close>, and from
  \<open>B = ln (delta\<^sup>2 - phi\<^sup>2 - v)\<close> when \<open>delta\<^sup>2 > phi\<^sup>2 + v\<close>; otherwise \<open>B = a - k TAU\<close>
  for the smallest positive integer \<open>k\<close> at which \<open>f (a - k TAU)\<close> is not negative: the
  search goes on while \<open>f (a - k TAU) < 0\<close>. The search returns.
\<close>

theorem C4_initial_bracket:
  assumes "0 \<le> v"
  shows "\<exists>k. glicko2_bracket vol phi v delta =
           Some (ln (vol\<^sup>2),
                 if delta\<^sup>2 > phi\<^sup>2 + v then ln (delta\<^sup>2 - phi\<^sup>2 - v)
                 else ln (vol\<^sup>2) - real_of_int k * TAU) \<and>
         1 \<le> k \<and>
         \<not> f (ln (vol\<^sup>2) - real_of_int k * TAU) delta v (ln (vol\<^sup>2)) < 0 \<and>
         (\<forall>j. 1 \<le> j \<and> j < k \<longrightarrow> f (ln (vol\<^sup>2) - real_of_int j * TAU) delta v (ln (vol\<^sup>2)) < 0)"
proof -
  have s: "glicko2_search_k (ln (vol\<^sup>2)) delta v (ln (vol\<^sup>2)) 1 = Some 1"
    using assms by (rule glicko2_search_k_first)
  have b: "glicko2_bracket vol phi v delta =
           Some (ln (vol\<^sup>2),
                 if delta\<^sup>2 > phi\<^sup>2 + v then ln (delta\<^sup>2 - phi\<^sup>2 - v)
                 else ln (vol\<^sup>2) - real_of_int 1 * TAU)"
    by (simp add: glicko2_bracket_def Let_def s)
  show ?thesis
    using b glicko2_search_k_least [OF s] by (intro exI [of _ 1]) simp
qed

theorem C4_initial_bracket_witness:
  "\<exists>k. glicko2_bracket 0.06 1 1 2 =
           Some (ln ((0.06)\<^sup>2),
                 if 2\<^sup>2 > 1\<^sup>2 + (1 :: real) then ln (2\<^sup>2 - 1\<^sup>2 - 1)
                 else ln ((0.06)\<^sup>2) - real_of_int k * TAU) \<and>
         1 \<le> k \<and>
         \<not> f (ln ((0.06)\<^sup>2) - real_of_int k * TAU) 2 1 (ln ((0.06)\<^sup>2)) < 0"
proof -
  have h: "(0 :: real) \<le> 1" by simp
  from C4_initial_bracket [OF h, of "0.06" 1 2] show ?thesis by blast
qed

text \<open>
  Claim C4 as stated fails: for \<open>sigma = 0.06\<close>, \<open>phi = 1\<close>, \<open>v = 1\<close>, \<open>delta = 0\<close> the
  bracket ends at \<open>B = a - 1 TAU\<close>, and \<open>f (a - 1 TAU)\<close> is not negative.
\<close>

theorem C4_search_stops_at_nonnegative_f:
  "glicko2_bracket 0.06 1 1 0 = Some (ln ((0.06)\<^sup>2), ln ((0.06)\<^sup>2) - real_of_int 1 * TAU) \<and>
   \<not> f (ln ((0.06)\<^sup>2) - real_of_int 1 * TAU) 0 1 (ln ((0.06)\<^sup>2)) < 0 \<and>
   \<not> (0 :: real)\<^sup>2 > 1\<^sup>2 + 1"
proof -
  have v: "(0 :: real) \<le> 1" and n: "\<not> (0 :: real)\<^sup>2 > 1\<^sup>2 + 1" by simp_all
  have "\<not> f (ln ((0.06)\<^sup>2) - real_of_int 1 * TAU) 0 1 (ln ((0.06)\<^sup>2)) < 0"
    using f_one_step_below [OF v, of "ln ((0.06)\<^sup>2)" 0] by (simp only: not_less)
  then show ?thesis
    using glicko2_bracket_search [OF v n, of "0.06"] n by (intro conjI)
qed

section \<open>The step of the solver\<close>

lemma Glicko2_solver_step_secant:
  "fst (snd (Glicko2_solver_step self dev v delta (A, B, f_A, f_B))) = A + (A - B) * f_A / (f_B - f_A) \<or>
   fst (Glicko2_solver_step self dev v delta (A, B, f_A, f_B)) = A + (A - B) * f_A / (f_B - f_A)"
  by (simp add: Glicko2_solver_step_def Let_def)

text \<open>\<open>Glicko2::get_new_volatility\<close> keeps the function value of the endpoint it keeps.\<close>

lemma Glicko2_solver_step_never_halves:
  "(fst (Glicko2_solver_step self dev v delta (A, B, f_A, f_B)) = A \<and>
    fst (snd (snd (Glicko2_solver_step self dev v delta (A, B, f_A, f_B)))) = f_A) \<or>
   (fst (snd (Glicko2_solver_step self dev v delta (A, B, f_A, f_B))) = B \<and>
    snd (snd (snd (Glicko2_solver_step self dev v delta (A, B, f_A, f_B)))) = f_B)"
  by (simp add: Glicko2_solver_step_def Let_def)

lemma Glicko2_solver_step_not_illinois:
  assumes "A \<noteq> B" and "f_A \<noteq> 0"
  shows "Glicko2_solver_step self dev v delta (A, B, f_A, f_B)
           \<noteq> Glicko2_illinois_step self dev v delta (A, B, f_A, f_B)"
proof -
  define C where "C = A + (A - B) * f_A / (f_B - f_A)"
  define f_C where "f_C = Glicko2_f self C A dev v delta"
  have l: "Glicko2_solver_step self dev v delta (A, B, f_A, f_B)
      = (if f_C < 0 then (A, C, f_A, f_C) else (C, B, f_C, f_B))"
    by (simp add: Glicko2_solver_step_def Let_def C_def f_C_def)
  have r: "Glicko2_illinois_step self dev v delta (A, B, f_A, f_B)
      = (if f_C * f_B < 0 then (B, C, f_B, f_C) else (A, C, f_A / 2, f_C))"
    by (simp add: Glicko2_illinois_step_def Let_def C_def f_C_def)
  show ?thesis
  proof (cases "f_C < 0")
    case True
    then show ?thesis unfolding l r using assms by auto
  next
    case False
    show ?thesis
    proof (cases "f_C * f_B < 0")
      case True
      then have "f_B \<noteq> f_C" using False by (auto simp: mult_less_0_iff)
      then show ?thesis unfolding l r using False True by auto
    next
      case nn: False
      then show ?thesis unfolding l r using False assms(1) by auto
    qed
  qed
qed

lemma glicko2_solver_step_is_illinois:
  "glicko2_solver_step delta v (A, B, fa, fb) =
     (let C = A + (A - B) * fa / (fb - fa); fc = f C delta v A
      in if fc * fb < 0 then (B, C, fb, fc) else (A, C, fa / 2, fc))"
  by (simp add: glicko2_solver_step_def)

lemma Glicko2_f_one_step_below:
  assumes "0 \<le> v" and "0 < tau self" and "tau self \<le> 2"
  shows "0 \<le> Glicko2_f self (A - real_of_int 1 * tau self) A dev v delta"
proof -
  have K: "0 \<le> dev * dev + v" using assms(1) by simp
  have "- (1 / 2) \<le> exp (A - tau self) * (delta * delta - (dev * dev + v) - exp (A - tau self))
      / (2 * (dev * dev + v + exp (A - tau self))\<^sup>2)"
    using K by (intro objective_first_term_lower) simp_all
  moreover have "- ((A - tau self - A) / (tau self * tau self)) = 1 / tau self"
    using assms(2) by simp
  moreover have "1 / 2 \<le> 1 / tau self" using assms(2,3) by (simp add: field_simps)
  ultimately show ?thesis by (simp add: Glicko2_f_def algebra_simps)
qed

lemma Glicko2_search_k_first:
  assumes "0 \<le> v" and "0 < tau self" and "tau self \<le> 2"
  shows "Glicko2_search_k self A dev v delta 1 = Some 1"
  using Glicko2_f_one_step_below [OF assms, of A dev delta]
  by (subst Glicko2_search_k.simps) simp

text \<open>
  On the input \<open>deviation = 1\<close>, \<open>volatility = 1\<close>, \<open>v = 1\<close>, \<open>delta = 1.5\<close> the solver's
  loop starts from \<open>A = 0\<close> and \<open>B = -0.6\<close>.
\<close>

lemma Glicko2_get_new_volatility_start:
  "Glicko2_get_new_volatility Glicko2_default 1 1 1 1.5 =
     (case Glicko2_solver_loop Glicko2_default 1 1 1.5
        (0, - 0.6, Glicko2_f Glicko2_default 0 0 1 1 1.5, Glicko2_f Glicko2_default (- 0.6) 0 1 1 1.5) of
        None \<Rightarrow> None | Some A' \<Rightarrow> Some (exp (A' / 2)))"
proof -
  have t: "tau Glicko2_default = 0.6" by (simp add: Glicko2_default_def)
  have "Glicko2_search_k Glicko2_default 0 1 1 1.5 1 = Some 1"
    by (rule Glicko2_search_k_first) (simp_all add: t)
  then show ?thesis
    by (simp add: Glicko2_get_new_volatility_def Let_def t)
qed

text \<open>
  Claim C5. Every iteration of the solver must be an Illinois step. The loop body of
  \<open>glicko2_update\<close> is one (\<open>glicko2_solver_step_is_illinois\<close>). The loop body of
  \<open>Glicko2::get_new_volatility\<close> tests the sign of \<open>f_C\<close> alone, replaces one endpoint
  by \<open>C\<close> and never halves a function value: on the input \<open>deviation = 1\<close>,
  \<open>volatility = 1\<close>, \<open>v = 1\<close>, \<open>delta = 1.5\<close> the loop is entered and its first
  iteration is not the Illinois step.
\<close>

theorem C5_regula_falsi_without_illinois:
  "epsilon Glicko2_default < \<bar>- 0.6 - (0 :: real)\<bar> \<and>
   Glicko2_solver_step Glicko2_default 1 1 1.5
     (0, - 0.6, Glicko2_f Glicko2_default 0 0 1 1 1.5, Glicko2_f Glicko2_default (- 0.6) 0 1 1 1.5)
   \<noteq> Glicko2_illinois_step Glicko2_default 1 1 1.5
     (0, - 0.6, Glicko2_f Glicko2_default 0 0 1 1 1.5, Glicko2_f Glicko2_default (- 0.6) 0 1 1 1.5)"
proof -
  have a: "(0 :: real) \<noteq> - 0.6" by simp
  have b: "Glicko2_f Glicko2_default 0 0 1 1 1.5 \<noteq> 0"
    by (simp add: Glicko2_f_def Glicko2_default_def)
  have c: "epsilon Glicko2_default < \<bar>- 0.6 - (0 :: real)\<bar>" by (simp add: Glicko2_default_def)
  show ?thesis using c Glicko2_solver_step_not_illinois [OF a b] by (intro conjI)
qed

section \<open>Logging and clamping\<close>

lemma glicko2_commit_clamps:
  "Player_volatility (fst (glicko2_commit True target mu phi v delta_sum A)) \<le> 2.8 \<and>
   Player_new_rd (fst (glicko2_commit True target mu phi v delta_sum A)) \<le> 2.9 * 173.7178"
  by (simp add: glicko2_commit_def Let_def)

lemma glicko2_commit_abandons:
  "1 < exp (A / 2) \<Longrightarrow> glicko2_commit False target mu phi v delta_sum A = (target, [])"
  by (simp add: glicko2_commit_def Let_def)

lemma exp_half_ln_square: "0 < x \<Longrightarrow> exp (ln (x\<^sup>2) / 2) = (x :: real)"
proof -
  assume x: "0 < x"
  have "ln (x\<^sup>2) = real 2 * ln x" by (rule ln_realpow)
  then have "ln (x\<^sup>2) / 2 = ln x" by simp
  then show ?thesis using x by simp
qed

text \<open>A player without games: the solver is not entered and \<open>A\<close> stays \<open>ln (sigma\<^sup>2)\<close>.\<close>

lemma glicko2_update_no_games:
  "glicko2_update log_ok hash_table target [] =
     Some (glicko2_commit log_ok target ((Player_rating target - 1500) / 173.7178)
       (Player_rd target / 173.7178) (1 / 0) 0 (ln ((Player_volatility target)\<^sup>2)))"
  by (simp only: glicko2_update_def Let_def glicko2_games_loop.simps prod.case refl if_True)

text \<open>
  Claim C6. An extreme value must only be logged, and the update must complete with
  the clamped value. In \<open>glicko2_update\<close> the update is abandoned by a \<open>return\<close> when
  the log cannot be opened: the player keeps its volatility 2, and \<open>new_rating\<close> and
  \<open>new_rd\<close> are not written. \<open>Glicko2::get_new_volatility\<close> has neither log nor clamp
  and returns the volatility 3, above the ceiling 2.8.
\<close>

theorem C6_update_abandoned_and_no_clamp:
  "glicko2_commit False volatile_player 0 (350 / 173.7178) 1 0 (ln (2\<^sup>2)) = (volatile_player, []) \<and>
   glicko2_update False [volatile_player] volatile_player [] = Some (volatile_player, []) \<and>
   Player_volatility volatile_player = 2 \<and>
   Glicko2_get_new_volatility Glicko2_default 1 3 1 0 = Some 3"
proof -
  have e: "exp (ln ((2 :: real)\<^sup>2) / 2) = 2" by (rule exp_half_ln_square) simp
  have one: "1 < exp (ln ((2 :: real)\<^sup>2) / 2)" unfolding e by simp
  have c: "glicko2_commit False volatile_player mu phi v delta_sum (ln (2\<^sup>2)) = (volatile_player, [])"
    for mu phi v delta_sum
    using one by (rule glicko2_commit_abandons)
  have pv: "Player_volatility volatile_player = 2" by (simp add: volatile_player_def)
  have u: "glicko2_update False [volatile_player] volatile_player [] = Some (volatile_player, [])"
    by (simp only: glicko2_update_no_games pv c)
  have n: "Glicko2_get_new_volatility Glicko2_default 1 3 1 0 = Some 3"
    by (rule Glicko2_get_new_volatility_nan) simp_all
  show ?thesis using c u n pv by (intro conjI)
qed

section \<open>Decay in the class \<open>Glicko\<close> and in the C program\<close>

lemma Glicko_decay_frame:
  "q \<notin> set player_ids \<Longrightarrow>
   Glicko_players (Glicko_update_player_deviations self player_ids month) q = Glicko_players self q"
  by (induction self player_ids month rule: Glicko_update_player_deviations.induct)
     (simp_all add: Let_def)

lemma Glicko_decay_c:
  "Glicko_c (Glicko_update_player_deviations self player_ids month) = Glicko_c self"
  by (induction self player_ids month rule: Glicko_update_player_deviations.induct)
     (simp_all add: Let_def)

text \<open>\<open>Glicko::update_player_deviations\<close> adds \<open>c\<^sup>2\<close> whatever the time since the last game.\<close>

lemma Glicko_decay_effect:
  "distinct player_ids \<Longrightarrow> player_id \<in> set player_ids \<Longrightarrow>
   Glicko_players self player_id = Some player \<Longrightarrow>
   Glicko_players (Glicko_update_player_deviations self player_ids month) player_id =
     Some (player\<lparr>Glicko_deviation :=
              sqrt (Glicko_deviation player * Glicko_deviation player + Glicko_c self * Glicko_c self),
            Glicko_last_month_played := month\<rparr>)"
proof (induction self player_ids month rule: Glicko_update_player_deviations.induct)
  case (1 self month)
  then show ?case by simp
next
  case (2 self pid player_ids month)
  show ?case
  proof (cases "player_id = pid")
    case True
    then have "player_id \<notin> set player_ids" using "2.prems" by simp
    then show ?thesis
      unfolding Glicko_update_player_deviations.simps Let_def
      using "2.prems"(3) by (simp add: Glicko_decay_frame True Glicko_players_at_def)
  next
    case False
    then have in_rest: "player_id \<in> set player_ids" and d: "distinct player_ids"
      using "2.prems" by simp_all
    let ?s = "self\<lparr>Glicko_players := (Glicko_players self)(pid \<mapsto>
      (Glicko_players_at self pid)\<lparr>Glicko_deviation :=
         sqrt (Glicko_deviation (Glicko_players_at self pid) * Glicko_deviation (Glicko_players_at self pid)
               + Glicko_c self * Glicko_c self),
       Glicko_last_month_played := month\<rparr>)\<rparr>"
    have p: "Glicko_players ?s player_id = Some player" using False "2.prems"(3) by simp
    have "Glicko_players (Glicko_update_player_deviations ?s player_ids month) player_id =
      Some (player\<lparr>Glicko_deviation :=
              sqrt (Glicko_deviation player * Glicko_deviation player + Glicko_c ?s * Glicko_c ?s),
            Glicko_last_month_played := month\<rparr>)"
      using "2.IH" [OF refl refl refl d in_rest] p by (simp add: Let_def)
    then show ?thesis
      unfolding Glicko_update_player_deviations.simps Let_def by simp
  qed
qed

text \<open>
  In the C program a player without games goes through \<open>glicko2_update\<close> like every
  player of the table: its rating is kept, and its deviation grows by its volatility up
  to the ceiling.
\<close>

lemma glicko2_update_no_games_result:
  assumes "0 < Player_volatility target" and "Player_volatility target \<le> 1"
  shows "\<exists>target' records. glicko2_update True hash_table target [] = Some (target', records) \<and>
     Player_new_rating target' = Player_rating target \<and>
     Player_volatility target' = Player_volatility target \<and>
     Player_new_rd target' =
       min 2.9 (sqrt ((Player_rd target / 173.7178)\<^sup>2 + (Player_volatility target)\<^sup>2)) * 173.7178"
proof -
  define sigma where "sigma = Player_volatility target"
  define phi where "phi = Player_rd target / 173.7178"
  have e: "exp (ln (sigma\<^sup>2) / 2) = sigma" using assms(1) unfolding sigma_def by (rule exp_half_ln_square)
  have pos: "0 < sqrt (phi\<^sup>2 + sigma\<^sup>2)"
    using assms(1) unfolding sigma_def by (simp add: add_nonneg_pos)
  have inv: "1 / sqrt (1 / (sqrt (phi\<^sup>2 + sigma\<^sup>2))\<^sup>2 + 1 / (1 / 0)) = sqrt (phi\<^sup>2 + sigma\<^sup>2)"
    using pos by (simp add: real_sqrt_divide)
  have s1: "\<not> sigma > 1" "\<not> sigma > 2.8" using assms(2) unfolding sigma_def by simp_all
  have mu: "((Player_rating target - 1500) / 173.7178 + x * 0) * 173.7178 + 1500 = Player_rating target"
    for x :: real
    by (simp add: field_simps)
  show ?thesis
    unfolding glicko2_update_no_games glicko2_commit_def Let_def
      sigma_def [symmetric] phi_def [symmetric] e
    using s1 by (simp only: inv mu if_False simp_thms) (auto simp: min_def)
qed

section \<open>The order of the players in the C program\<close>

lemma retrieve_same_strength:
  "list_all2 same_strength t t' \<Longrightarrow> rel_option same_strength (retrieve t ident) (retrieve t' ident)"
  unfolding retrieve_def
  by (induction t t' rule: list_all2_induct) (auto simp: same_strength_def)

lemma glicko2_games_loop_same_strength:
  assumes "list_all2 same_strength t t'"
  shows "glicko2_games_loop t mu games acc = glicko2_games_loop t' mu games acc"
proof (induction games arbitrary: acc)
  case Nil
  show ?case by simp
next
  case (Cons game games)
  obtain v_inv delta_sum where acc: "acc = (v_inv, delta_sum)" by (cases acc)
  from retrieve_same_strength [OF assms, of "GameResult_opponent_id game"]
  show ?case
    unfolding acc
    by (cases rule: option.rel_cases) (simp_all add: Cons.IH same_strength_def Let_def)
qed

lemma glicko2_update_same_strength:
  "list_all2 same_strength t t' \<Longrightarrow>
   glicko2_update log_ok t target games = glicko2_update log_ok t' target games"
  by (simp only: glicko2_update_def glicko2_games_loop_same_strength)

lemma glicko2_commit_keeps_id:
  "Player_id (fst (glicko2_commit log_ok target mu phi v delta_sum A)) = Player_id target"
  by (simp add: glicko2_commit_def Let_def)

lemma glicko2_update_same_strength_result:
  assumes "glicko2_update log_ok t target games = Some (target', records)"
  shows "same_strength target target'"
proof -
  from assms obtain mu phi v delta_sum A where
    "target' = fst (glicko2_commit log_ok target mu phi v delta_sum A)"
    by (auto simp: glicko2_update_def Let_def split: prod.splits option.splits if_splits)
       (metis fst_conv)+
  then show ?thesis
    using glicko2_commit_keeps_rating [of log_ok target mu phi v delta_sum A]
      glicko2_commit_keeps_id [of log_ok target mu phi v delta_sum A]
    by (simp add: same_strength_def)
qed

lemma update_players_staged:
  assumes "list_all2 same_strength t0 t"
    and "\<forall>i \<in> set order. i < length t0 \<and> t ! i = t0 ! i"
    and "distinct order"
  shows "update_players log_ok order t =
     (if \<forall>i \<in> set order. glicko2_update log_ok t0 (t0 ! i) (Player_games (t0 ! i)) \<noteq> None
      then Some (map (\<lambda>j. if j \<in> set order
                             then fst (the (glicko2_update log_ok t0 (t0 ! j) (Player_games (t0 ! j))))
                             else t ! j) [0..<length t])
      else None)"
  using assms
proof (induction order arbitrary: t)
  case Nil
  show ?case by (simp add: map_nth)
next
  case (Cons i order)
  have len: "length t = length t0" using Cons.prems(1) by (simp add: list_all2_lengthD)
  have i: "i < length t0" "t ! i = t0 ! i" using Cons.prems(2) by simp_all
  have upd: "glicko2_update log_ok t (t ! i) (Player_games (t ! i))
      = glicko2_update log_ok t0 (t0 ! i) (Player_games (t0 ! i))"
    unfolding i(2)
    by (rule glicko2_update_same_strength [symmetric]) (rule Cons.prems(1))
  show ?case
  proof (cases "glicko2_update log_ok t0 (t0 ! i) (Player_games (t0 ! i))")
    case None
    then show ?thesis by (simp add: upd)
  next
    case (Some r)
    obtain current records where r: "r = (current, records)" by (cases r)
    have s: "same_strength (t0 ! i) current"
      using Some unfolding r by (rule glicko2_update_same_strength_result)
    have rel: "list_all2 same_strength t0 (t[i := current])"
      using Cons.prems(1) s i(1) by (simp add: list_all2_conv_all_nth nth_list_update)
    have d: "distinct order" and notin: "i \<notin> set order" using Cons.prems(3) by simp_all
    have rest: "\<forall>j \<in> set order. j < length t0 \<and> t[i := current] ! j = t0 ! j"
    proof
      fix j assume j: "j \<in> set order"
      then have "j \<noteq> i" using notin by auto
      then have "t[i := current] ! j = t ! j" by simp
      then show "j < length t0 \<and> t[i := current] ! j = t0 ! j"
        using Cons.prems(2) j by simp
    qed
    have maps: "map (\<lambda>j. if j \<in> set order
                       then fst (the (glicko2_update log_ok t0 (t0 ! j) (Player_games (t0 ! j))))
                       else t[i := current] ! j) [0..<length (t[i := current])]
        = map (\<lambda>j. if j \<in> set (i # order)
                       then fst (the (glicko2_update log_ok t0 (t0 ! j) (Player_games (t0 ! j))))
                       else t ! j) [0..<length t]"
      using notin i(1) len by (auto simp: Some r nth_list_update)
    show ?thesis
      using Cons.IH [OF rel rest d] by (simp add: upd Some r maps)
  qed
qed

lemma list_all2_same_strength_refl: "list_all2 same_strength t t"
  by (simp add: list_all2_conv_all_nth same_strength_def)

text \<open>
  The loop of \<open>main\<close> over the table gives the same table for every order of its
  players.
\<close>

lemma update_players_order:
  assumes "distinct order1" and "distinct order2" and "set order1 = set order2"
    and "\<forall>i \<in> set order1. i < length hash_table"
  shows "update_players log_ok order1 hash_table = update_players log_ok order2 hash_table"
proof -
  have 1: "\<forall>i \<in> set order1. i < length hash_table \<and> hash_table ! i = hash_table ! i"
    using assms(4) by simp
  have 2: "\<forall>i \<in> set order2. i < length hash_table \<and> hash_table ! i = hash_table ! i"
    using assms(3,4) by simp
  show ?thesis
    unfolding update_players_staged [OF list_all2_same_strength_refl 1 assms(1)]
      update_players_staged [OF list_all2_same_strength_refl 2 assms(2)] assms(3)
    by simp
qed

end
